theory Spec2Isabelle
  imports Complex_Main
begin

section \<open>NeckSnake: head-motion controller and snake game\<close>

text \<open>
  A shallow embedding of \<^verbatim>\<open>src/motion/HeadMotionController.ts\<close> (class
  \<^verbatim>\<open>HeadMotionController\<close>) and of the class \<^verbatim>\<open>SnakeGame\<close>.

  In the controller's loop JavaScript numbers are modelled as \<^typ>\<open>real\<close>: comparisons,
  sums and products are exact, so IEEE rounding is outside that model. The
  direction resolver, whose decision boundary is the subject of a property of its
  own, is modelled a second time with the rounding of binary64 arithmetic. Counters
  that only ever hold integers are \<^typ>\<open>nat\<close> or \<^typ>\<open>int\<close>.
\<close>

subsection \<open>Data model\<close>

text \<open>\<^verbatim>\<open>type HeadDirection = 'up' | 'down' | 'left' | 'right'\<close>\<close>

datatype HeadDirection = Up | Down | Left | Right

text \<open>The string a direction is (used by the template literal of the debug text).\<close>

fun directionText :: "HeadDirection \<Rightarrow> string" where
  "directionText Up = ''up''"
| "directionText Down = ''down''"
| "directionText Left = ''left''"
| "directionText Right = ''right''"

record HeadDirectionEvent =
  direction :: HeadDirection
  confidence :: real
  timestamp :: real

record HeadMotionSnapshot =
  tracking :: bool
  calibrated :: bool
  fps :: int
  debug :: string
  lastDirection :: "HeadDirection option"

record FaceBaseline =
  noseOffsetX :: real
  noseOffsetY :: real
  shoulderWidth :: real

subsection \<open>Numeric helpers\<close>

text \<open>\<^verbatim>\<open>const clamp01 = (value) => Math.max(0, Math.min(1, value))\<close>\<close>

definition clamp01 :: "real \<Rightarrow> real" where
  "clamp01 v = max 0 (min 1 v)"

text \<open>
  \<^verbatim>\<open>clamp01(n / d)\<close> as JavaScript evaluates it. A quotient by zero is not \<open>0\<close>
  there, as it is in HOL: a positive numerator over zero is \<open>+Infinity\<close>, which
  \<^verbatim>\<open>clamp01\<close> maps to \<open>1\<close>, and a negative one is \<open>-Infinity\<close>, mapped to \<open>0\<close>.
  (\<open>0 / 0\<close> is \<open>NaN\<close>; no call below has a zero numerator over a zero divisor.)
\<close>

definition clamp01_quot :: "real \<Rightarrow> real \<Rightarrow> real" where
  "clamp01_quot n d = (if d = 0 then (if 0 < n then 1 else 0) else clamp01 (n / d))"

text \<open>\<^verbatim>\<open>Math.hypot(a, b)\<close>\<close>

definition hypot :: "real \<Rightarrow> real \<Rightarrow> real" where
  "hypot a b = sqrt (a\<^sup>2 + b\<^sup>2)"

text \<open>\<^verbatim>\<open>Math.round\<close>: the nearest integer, halves rounded up.\<close>

definition round_half_up :: "real \<Rightarrow> int" where
  "round_half_up v = \<lfloor>v + 1 / 2\<rfloor>"

text \<open>
  \<^verbatim>\<open>const average = (values) => values.reduce((sum, value) => sum + value, 0) / Math.max(values.length, 1)\<close>
\<close>

definition average :: "real list \<Rightarrow> real" where
  "average values = foldl (\<lambda>sum v. sum + v) 0 values / real (max (length values) 1)"

subsection \<open>Direction resolution\<close>

text \<open>
  \<^verbatim>\<open>resolveDirection(dx, dy, threshold)\<close>, lines 436 to 472, in exact arithmetic, as
  the loop below uses it. The returned object \<^verbatim>\<open>{ direction, confidence }\<close> is a
  pair; \<^verbatim>\<open>null\<close> is \<open>None\<close>.
\<close>

definition resolveDirection :: "real \<Rightarrow> real \<Rightarrow> real \<Rightarrow> (HeadDirection \<times> real) option" where
  "resolveDirection dx dy threshold =
    (let horizontalThreshold = threshold * 0.95;
         downThreshold = threshold * 1.05;
         upThreshold = threshold * 1.35;
         dominanceRatio = 1.12;
         absX = \<bar>dx\<bar>;
         absY = \<bar>dy\<bar>
     in if absX \<ge> absY * dominanceRatio \<and> absX > horizontalThreshold
        then Some (if dx > 0 then Right else Left,
                   clamp01_quot absX (horizontalThreshold * 2.1))
        else if absY \<ge> absX * dominanceRatio
        then (if dy > downThreshold
              then Some (Down, clamp01_quot dy (downThreshold * 2.1))
              else if dy < - upThreshold
              then Some (Up, clamp01_quot (- dy) (upThreshold * 2.1))
              else None)
        else None)"

subsection \<open>Direction resolution in binary64 arithmetic\<close>

text \<open>
  A finite binary64 number is the real it denotes. \<open>fl\<close> rounds a real to binary64:
  to the nearest multiple of the unit in the last place of its binade (\<open>53\<close>
  significant bits, the smallest exponent \<open>-1022\<close>, so that the subnormal numbers are
  the multiples of \<open>2 ^ -1074\<close>), a tie going to the even multiple. The exponent is
  not bounded above: a result of magnitude \<open>2 ^ 1024\<close> or more is what IEEE
  arithmetic returns as an infinity, and stands for it. The two zeros are one.
\<close>

definition pow2 :: "int \<Rightarrow> real" where
  "pow2 e = (if 0 \<le> e then 2 ^ nat e else 1 / 2 ^ nat (- e))"

definition round_even :: "real \<Rightarrow> int" where
  "round_even r =
    (let f = \<lfloor>r\<rfloor>; d = r - of_int f
     in if d < 1 / 2 then f else if d > 1 / 2 then f + 1 else if even f then f else f + 1)"

definition fl :: "real \<Rightarrow> real" where
  "fl v =
    (if v = 0 then 0
     else (let e = max \<lfloor>log 2 \<bar>v\<bar>\<rfloor> (- 1022);
               ulp = pow2 (e - 52)
           in of_int (round_even (v / ulp)) * ulp))"

text \<open>The product of two binary64 numbers, as \<^verbatim>\<open>a * b\<close> computes it.\<close>

definition mul64 :: "real \<Rightarrow> real \<Rightarrow> real" where
  "mul64 a b = fl (a * b)"

text \<open>
  \<^verbatim>\<open>clamp01(n / d)\<close> on binary64 numbers. A positive numerator over zero is
  \<open>+Infinity\<close>, which \<^verbatim>\<open>clamp01\<close> maps to \<open>1\<close>, a negative one \<open>-Infinity\<close>, mapped to
  \<open>0\<close>; a finite numerator over an infinite divisor is zero. (The resolver never
  divides zero by zero, and with a finite threshold never an infinity by an
  infinity; a threshold of \<open>-0\<close>, whose quotients have the other sign, is not told
  from \<open>0\<close>.)
\<close>

definition clamp01_div64 :: "real \<Rightarrow> real \<Rightarrow> real" where
  "clamp01_div64 n d =
    (if d = 0 then (if 0 < n then 1 else 0)
     else if 2 ^ 1024 \<le> \<bar>d\<bar> then 0
     else clamp01 (fl (n / d)))"

text \<open>
  The literals \<^verbatim>\<open>0.95\<close>, \<^verbatim>\<open>1.05\<close>, \<^verbatim>\<open>1.35\<close>, \<^verbatim>\<open>1.12\<close> and \<^verbatim>\<open>2.1\<close> of the source: each
  denotes the binary64 number nearest to the decimal.
\<close>

definition lit_0_95 :: real where "lit_0_95 = fl 0.95"
definition lit_1_05 :: real where "lit_1_05 = fl 1.05"
definition lit_1_35 :: real where "lit_1_35 = fl 1.35"
definition lit_1_12 :: real where "lit_1_12 = fl 1.12"
definition lit_2_1 :: real where "lit_2_1 = fl 2.1"

text \<open>
  \<^verbatim>\<open>resolveDirection(dx, dy, threshold)\<close>, lines 436 to 472, on binary64 numbers:
  every product and quotient of the source is rounded, in the order the source
  computes them; absolute value, negation, comparison and \<^verbatim>\<open>clamp01\<close> are exact.
\<close>

definition resolveDirection64 :: "real \<Rightarrow> real \<Rightarrow> real \<Rightarrow> (HeadDirection \<times> real) option" where
  "resolveDirection64 dx dy threshold =
    (let horizontalThreshold = mul64 threshold lit_0_95;
         downThreshold = mul64 threshold lit_1_05;
         upThreshold = mul64 threshold lit_1_35;
         dominanceRatio = lit_1_12;
         absX = \<bar>dx\<bar>;
         absY = \<bar>dy\<bar>
     in if absX \<ge> mul64 absY dominanceRatio \<and> absX > horizontalThreshold
        then Some (if dx > 0 then Right else Left,
                   clamp01_div64 absX (mul64 horizontalThreshold lit_2_1))
        else if absY \<ge> mul64 absX dominanceRatio
        then (if dy > downThreshold
              then Some (Down, clamp01_div64 dy (mul64 downThreshold lit_2_1))
              else if dy < - upThreshold
              then Some (Up, clamp01_div64 (- dy) (mul64 upThreshold lit_2_1))
              else None)
        else None)"

subsection \<open>Controller state\<close>

text \<open>
  A landmark of the pose detector; the controller reads \<^verbatim>\<open>x\<close> and \<^verbatim>\<open>y\<close> only. A
  detection result is \<^verbatim>\<open>result.landmarks?.[0]\<close>: the landmark array of the first
  pose, or \<open>None\<close> when there is none. \<^verbatim>\<open>landmarks[i]\<close> of JavaScript is \<open>itemAt\<close>:
  an index past the end reads \<^verbatim>\<open>undefined\<close>.
\<close>

record Landmark =
  lm_x :: real
  lm_y :: real

definition itemAt :: "'a list \<Rightarrow> nat \<Rightarrow> 'a option" where
  "itemAt xs i = (if i < length xs then Some (xs ! i) else None)"

text \<open>
  What one animation frame brings: the reading of \<^verbatim>\<open>performance.now()\<close>, the
  detector's answer for the video frame, and the handle that
  \<^verbatim>\<open>requestAnimationFrame\<close> returns when the next frame is scheduled.
\<close>

record Frame =
  now :: real
  landmarks :: "Landmark list option"
  raf :: nat

text \<open>
  The video element as far as \<^verbatim>\<open>stop\<close> touches it. The media stream and the pose
  landmarker are opaque handles; \<open>None\<close> is \<^verbatim>\<open>null\<close>.
\<close>

record HTMLVideoElement =
  hasSrcObject :: bool
  paused :: bool

text \<open>
  The options that the modelled methods read (the two path options are read by
  \<^verbatim>\<open>initPoseLandmarker\<close> only).
\<close>

record Options =
  mirrorHorizontal :: bool
  sensitivityScale :: real

text \<open>
  A listener is a function object; the \<^verbatim>\<open>Set\<close> of listeners compares them by
  identity, so a listener is modelled by its identity. A JavaScript \<^verbatim>\<open>Set\<close> keeps
  insertion order and holds no element twice.
\<close>

type_synonym Listener = nat

definition set_add :: "'a \<Rightarrow> 'a list \<Rightarrow> 'a list" where
  "set_add v vs = (if v \<in> set vs then vs else vs @ [v])"

definition set_delete :: "'a \<Rightarrow> 'a list \<Rightarrow> 'a list" where
  "set_delete v vs = filter (\<lambda>w. w \<noteq> v) vs"

text \<open>
  The private fields of \<^verbatim>\<open>HeadMotionController\<close>. The field \<^verbatim>\<open>fps\<close> of the class
  is \<open>ctl_fps\<close> (the snapshot has a field of the same name).
\<close>

record Controller =
  options :: Options
  listeners :: "Listener list"
  stream :: "nat option"
  video :: "HTMLVideoElement option"
  poseLandmarker :: "nat option"
  rafId :: "nat option"
  running :: bool
  baseline :: "FaceBaseline option"
  frameCount :: nat
  fpsTickStart :: real
  ctl_fps :: int
  lastEmittedDirection :: "HeadDirection option"
  lastEmitAt :: real
  candidateDirection :: "HeadDirection option"
  candidateFrameCount :: nat
  candidateConfidence :: real
  smoothedDx :: real
  smoothedDy :: real
  snapshot :: HeadMotionSnapshot

text \<open>The field initialisers and the constructor (lines 61 to 98).\<close>

definition newController :: "bool option \<Rightarrow> real option \<Rightarrow> Controller" where
  "newController mirror sensitivity =
    \<lparr> options = \<lparr> mirrorHorizontal = (case mirror of None \<Rightarrow> True | Some m \<Rightarrow> m),
                    sensitivityScale = (case sensitivity of None \<Rightarrow> 1 | Some v \<Rightarrow> v) \<rparr>,
      listeners = [],
      stream = None,
      video = None,
      poseLandmarker = None,
      rafId = None,
      running = False,
      baseline = None,
      frameCount = 0,
      fpsTickStart = 0,
      ctl_fps = 0,
      lastEmittedDirection = None,
      lastEmitAt = 0,
      candidateDirection = None,
      candidateFrameCount = 0,
      candidateConfidence = 0,
      smoothedDx = 0,
      smoothedDy = 0,
      snapshot = \<lparr> tracking = False, calibrated = False, fps = 0, debug = ''Idle'',
                   lastDirection = None \<rparr> \<rparr>"

subsection \<open>Listeners and snapshot\<close>

text \<open>
  \<^verbatim>\<open>onDirection(listener)\<close> returns the new state and the unregistration handle, a
  closure that deletes the listener from whatever the set is when it is called.
\<close>

definition onDirection :: "Listener \<Rightarrow> Controller \<Rightarrow> (Controller \<Rightarrow> Controller) \<times> Controller" where
  "onDirection listener st =
    (\<lambda>s. s\<lparr>listeners := set_delete listener (listeners s)\<rparr>,
     st\<lparr>listeners := set_add listener (listeners st)\<rparr>)"

text \<open>\<^verbatim>\<open>getSnapshot()\<close> returns a copy of the snapshot.\<close>

definition getSnapshot :: "Controller \<Rightarrow> HeadMotionSnapshot" where
  "getSnapshot st = snapshot st"

definition setMirrorHorizontal :: "bool \<Rightarrow> Controller \<Rightarrow> Controller" where
  "setMirrorHorizontal enabled st = st\<lparr>options := (options st)\<lparr>mirrorHorizontal := enabled\<rparr>\<rparr>"

subsection \<open>stop\<close>

text \<open>
  \<^verbatim>\<open>stop()\<close>, lines 176 to 210. Stopping the tracks of the stream, cancelling the
  animation frame and closing the landmarker act on the browser; of the controller
  they leave the fields set to \<^verbatim>\<open>null\<close>. The video element stays referenced, paused
  and without source.
\<close>

definition stop :: "Controller \<Rightarrow> Controller" where
  "stop st =
    st\<lparr> running := False,
        rafId := None,
        stream := None,
        video := map_option (\<lambda>v. v\<lparr>paused := True, hasSrcObject := False\<rparr>) (video st),
        poseLandmarker := None,
        baseline := None,
        lastEmittedDirection := None,
        lastEmitAt := 0,
        candidateDirection := None,
        candidateFrameCount := 0,
        candidateConfidence := 0,
        smoothedDx := 0,
        smoothedDy := 0,
        snapshot := \<lparr> tracking = False, calibrated = False, fps = 0, debug = ''Stopped'',
                      lastDirection = None \<rparr> \<rparr>"

subsection \<open>Calibration\<close>

text \<open>\<^verbatim>\<open>captureBaselineSample()\<close>, lines 248 to 282, on the detector's answer.\<close>

definition captureBaselineSample :: "Controller \<Rightarrow> Landmark list option \<Rightarrow> FaceBaseline option" where
  "captureBaselineSample st detected =
    (if video st = None \<or> poseLandmarker st = None then None
     else case detected of
       None \<Rightarrow> None
     | Some lms \<Rightarrow>
        (case itemAt lms 0 of
          None \<Rightarrow> None
        | Some nose \<Rightarrow>
           (case itemAt lms 11 of
             None \<Rightarrow> None
           | Some leftShoulder \<Rightarrow>
              (case itemAt lms 12 of
                None \<Rightarrow> None
              | Some rightShoulder \<Rightarrow>
                 (let width = hypot (lm_x leftShoulder - lm_x rightShoulder)
                                    (lm_y leftShoulder - lm_y rightShoulder)
                  in if width < 0.0001 then None
                     else (let shoulderCenterX = (lm_x leftShoulder + lm_x rightShoulder) / 2;
                               shoulderCenterY = (lm_y leftShoulder + lm_y rightShoulder) / 2
                           in Some \<lparr> noseOffsetX = lm_x nose - shoulderCenterX,
                                     noseOffsetY = lm_y nose - shoulderCenterY,
                                     shoulderWidth = width \<rparr>))))))"

text \<open>
  The sampling loop of \<^verbatim>\<open>calibrate()\<close>, lines 219 to 225. Each turn of the loop reads
  the clock in its test, samples the detector and awaits the next animation frame;
  the list holds the frames the browser delivers, in order. The loop leaves as soon
  as its test fails. When the frames run out while the test still holds, the
  promise is still pending: the result is \<open>None\<close>.
\<close>

fun collectSamples :: "Controller \<Rightarrow> real \<Rightarrow> Frame list \<Rightarrow> FaceBaseline list \<Rightarrow> FaceBaseline list option" where
  "collectSamples st startedAt [] samples = None"
| "collectSamples st startedAt (f # fs) samples =
    (if length samples < 12 \<and> now f - startedAt < 1800
     then collectSamples st startedAt fs
            (case captureBaselineSample st (landmarks f) of
               None \<Rightarrow> samples
             | Some sample \<Rightarrow> samples @ [sample])
     else Some samples)"

text \<open>
  The two errors of \<^verbatim>\<open>calibrate()\<close>: \<^verbatim>\<open>'Camera not started yet.'\<close> and
  \<^verbatim>\<open>'Calibration needs nose + shoulders visible and stable.'\<close>
\<close>

datatype CalibrateError = NotStarted | CalibrationFailed

text \<open>
  \<^verbatim>\<open>calibrate()\<close>, lines 212 to 246, as one step on the controller: the frames of the
  driver loop that run while the promise is pending are not interleaved. The
  result is the error thrown, if any, and the controller as the call leaves it.
\<close>

definition calibrate :: "real \<Rightarrow> Frame list \<Rightarrow> Controller \<Rightarrow> (CalibrateError option \<times> Controller) option" where
  "calibrate startedAt frames st =
    (if \<not> running st \<or> video st = None \<or> poseLandmarker st = None
     then Some (Some NotStarted, st)
     else case collectSamples st startedAt frames [] of
       None \<Rightarrow> None
     | Some samples \<Rightarrow>
        if length samples < 6 then Some (Some CalibrationFailed, st)
        else Some (None,
          st\<lparr> baseline := Some \<lparr> noseOffsetX = average (map noseOffsetX samples),
                                  noseOffsetY = average (map noseOffsetY samples),
                                  shoulderWidth = average (map shoulderWidth samples) \<rparr>,
              lastEmittedDirection := None,
              lastEmitAt := 0,
              candidateDirection := None,
              candidateFrameCount := 0,
              candidateConfidence := 0,
              smoothedDx := 0,
              smoothedDy := 0,
              snapshot := (snapshot st)\<lparr>calibrated := True, debug := ''Calibrated''\<rparr> \<rparr>))"

subsection \<open>The per-frame loop\<close>

text \<open>
  What one run of \<^verbatim>\<open>loop()\<close> leaves: the controller, the event it built (line 417),
  if any, and the listener calls it made (line 423), in order.
\<close>

record LoopOutcome =
  controller :: Controller
  emitted :: "HeadDirectionEvent option"
  notified :: "(Listener \<times> HeadDirectionEvent) list"

text \<open>
  \<^verbatim>\<open>this.rafId = requestAnimationFrame(() => this.loop()); return;\<close> on a path that
  emits nothing.
\<close>

definition nextFrame :: "nat \<Rightarrow> Controller \<Rightarrow> LoopOutcome" where
  "nextFrame handle st = \<lparr> controller = st\<lparr>rafId := Some handle\<rparr>, emitted = None, notified = [] \<rparr>"

text \<open>Lines 293 to 298: the frame counter and the frame rate.\<close>

definition countFrame :: "real \<Rightarrow> Controller \<Rightarrow> Controller" where
  "countFrame t st =
    (let st1 = st\<lparr>frameCount := frameCount st + 1\<rparr>
     in if t - fpsTickStart st1 \<ge> 1000
        then st1\<lparr> ctl_fps := round_half_up (real (frameCount st1) * 1000 / (t - fpsTickStart st1)),
                 frameCount := 0,
                 fpsTickStart := t \<rparr>
        else st1)"

text \<open>
  Lines 300 to 316 and 322 to 338: the two tracking-loss branches, which differ in
  the debug text only.
\<close>

definition trackingLost :: "string \<Rightarrow> nat \<Rightarrow> Controller \<Rightarrow> LoopOutcome" where
  "trackingLost reason handle st =
    nextFrame handle
      (st\<lparr> lastEmittedDirection := None,
           lastEmitAt := 0,
           candidateDirection := None,
           candidateFrameCount := 0,
           candidateConfidence := 0,
           smoothedDx := 0,
           smoothedDy := 0,
           snapshot := (snapshot st)\<lparr>tracking := False, fps := ctl_fps st, debug := reason\<rparr> \<rparr>)"

text \<open>Line 408 and line 409.\<close>

definition requiredFrames :: "real \<Rightarrow> nat" where
  "requiredFrames conf = (if conf \<ge> 0.72 then 1 else 2)"

definition minGapMs :: "HeadDirection \<Rightarrow> HeadDirection option \<Rightarrow> real" where
  "minGapMs d lastEmitted = (if Some d = lastEmitted then 220 else 90)"

text \<open>
  Lines 387 to 434: the debounce state machine, on the signal that
  \<^verbatim>\<open>resolveDirection\<close> returned for this frame.
\<close>

definition debounce :: "real \<Rightarrow> nat \<Rightarrow> (HeadDirection \<times> real) option \<Rightarrow> Controller \<Rightarrow> LoopOutcome" where
  "debounce t handle signal st =
    (case signal of
       None \<Rightarrow>
        nextFrame handle
          (st\<lparr> candidateDirection := None,
               candidateFrameCount := 0,
               candidateConfidence := 0,
               snapshot := (snapshot st)\<lparr>debug := ''Micro movement ignored''\<rparr> \<rparr>)
     | Some (d, conf) \<Rightarrow>
        if candidateDirection st \<noteq> Some d
        then nextFrame handle
               (st\<lparr> candidateDirection := Some d,
                    candidateFrameCount := 1,
                    candidateConfidence := conf \<rparr>)
        else (let st1 = st\<lparr> candidateFrameCount := candidateFrameCount st + 1,
                             candidateConfidence := max (candidateConfidence st) conf \<rparr>
              in if candidateFrameCount st1 \<ge> requiredFrames (candidateConfidence st1)
                    \<and> t - lastEmitAt st1 \<ge> minGapMs d (lastEmittedDirection st1)
                 then (if Some d = lastEmittedDirection st1
                       then nextFrame handle st1
                       else (let event = \<lparr> direction = d,
                                           confidence = candidateConfidence st1,
                                           timestamp = t \<rparr>
                             in \<lparr> controller =
                                    st1\<lparr> snapshot := (snapshot st1)
                                           \<lparr> lastDirection := Some d,
                                             debug := ''Direction: '' @ directionText d \<rparr>,
                                         lastEmittedDirection := Some d,
                                         lastEmitAt := t,
                                         candidateDirection := None,
                                         candidateFrameCount := 0,
                                         candidateConfidence := 0,
                                         rafId := Some handle \<rparr>,
                                  emitted = Some event,
                                  notified = map (\<lambda>listener. (listener, event)) (listeners st1) \<rparr>))
                 else nextFrame handle st1))"

text \<open>
  Lines 358 to 387: the deviation from the baseline \<open>b\<close>, the threshold, the
  smoothing and the drift of the baseline, up to the call of \<^verbatim>\<open>resolveDirection\<close>;
  \<open>width\<close> is the shoulder width of this frame. The baseline object is mutated in
  place, so the drift is a write to the controller's baseline. The result is the
  signal and the controller as line 387 leaves it.
\<close>

definition smoothAndResolve ::
  "Landmark \<Rightarrow> Landmark \<Rightarrow> Landmark \<Rightarrow> real \<Rightarrow> FaceBaseline \<Rightarrow> Controller
    \<Rightarrow> (HeadDirection \<times> real) option \<times> Controller" where
  "smoothAndResolve nose leftShoulder rightShoulder width b st =
    (let shoulderCenterX = (lm_x leftShoulder + lm_x rightShoulder) / 2;
         shoulderCenterY = (lm_y leftShoulder + lm_y rightShoulder) / 2;
         dx0 = lm_x nose - shoulderCenterX - noseOffsetX b;
         dy = lm_y nose - shoulderCenterY - noseOffsetY b;
         dx = (if mirrorHorizontal (options st) then - dx0 else dx0);
         normalizedShoulderWidth = (width + shoulderWidth b) / 2;
         threshold = (0.09 / max (sensitivityScale (options st)) 0.4) * normalizedShoulderWidth;
         smoothing = 0.45;
         sdx = smoothedDx st * (1 - smoothing) + dx * smoothing;
         sdy = smoothedDy st * (1 - smoothing) + dy * smoothing;
         isNearNeutral = (\<bar>sdx\<bar> < threshold * 0.65 \<and> \<bar>sdy\<bar> < threshold * 0.75);
         driftBlend = 0.035;
         b1 = (if isNearNeutral
               then \<lparr> noseOffsetX = noseOffsetX b * (1 - driftBlend)
                         + (lm_x nose - shoulderCenterX) * driftBlend,
                      noseOffsetY = noseOffsetY b * (1 - driftBlend)
                         + (lm_y nose - shoulderCenterY) * driftBlend,
                      shoulderWidth = shoulderWidth b * (1 - driftBlend) + width * driftBlend \<rparr>
               else b)
     in (resolveDirection sdx sdy threshold,
         st\<lparr>smoothedDx := sdx, smoothedDy := sdy, baseline := Some b1\<rparr>))"

text \<open>
  Lines 340 to 356, with the three landmarks at hand: the shoulder width, the
  snapshot, and the early return without a baseline or with shoulders too close;
  then the steps above.
\<close>

definition track :: "real \<Rightarrow> nat \<Rightarrow> Landmark \<Rightarrow> Landmark \<Rightarrow> Landmark \<Rightarrow> Controller \<Rightarrow> LoopOutcome" where
  "track t handle nose leftShoulder rightShoulder st =
    (let width = hypot (lm_x leftShoulder - lm_x rightShoulder)
                       (lm_y leftShoulder - lm_y rightShoulder);
         st1 = st\<lparr>snapshot := (snapshot st)
                 \<lparr> tracking := True,
                   fps := ctl_fps st,
                   debug := (if baseline st \<noteq> None then ''Tracking'' else ''Ready to calibrate'') \<rparr>\<rparr>
     in case baseline st1 of
          None \<Rightarrow> nextFrame handle st1
        | Some b \<Rightarrow>
           if width < 0.0001 then nextFrame handle st1
           else debounce t handle
                  (fst (smoothAndResolve nose leftShoulder rightShoulder width b st1))
                  (snd (smoothAndResolve nose leftShoulder rightShoulder width b st1)))"

text \<open>\<^verbatim>\<open>loop()\<close>, lines 284 to 434.\<close>

definition loop :: "Frame \<Rightarrow> Controller \<Rightarrow> LoopOutcome" where
  "loop f st =
    (if \<not> running st \<or> video st = None \<or> poseLandmarker st = None
     then \<lparr> controller = st, emitted = None, notified = [] \<rparr>
     else (let st1 = countFrame (now f) st
           in case landmarks f of
                None \<Rightarrow> trackingLost ''Tracking lost'' (raf f) st1
              | Some lms \<Rightarrow>
                 (case itemAt lms 0 of
                    None \<Rightarrow> trackingLost ''Need nose + shoulders in frame'' (raf f) st1
                  | Some nose \<Rightarrow>
                     (case itemAt lms 11 of
                        None \<Rightarrow> trackingLost ''Need nose + shoulders in frame'' (raf f) st1
                      | Some leftShoulder \<Rightarrow>
                         (case itemAt lms 12 of
                            None \<Rightarrow> trackingLost ''Need nose + shoulders in frame'' (raf f) st1
                          | Some rightShoulder \<Rightarrow>
                             track (now f) (raf f) nose leftShoulder rightShoulder st1)))))"

subsection \<open>The snake game\<close>

text \<open>
  The class \<^verbatim>\<open>SnakeGame\<close> without its canvas: grid, snake, food, the direction of
  the last move (field \<^verbatim>\<open>direction\<close>, here \<open>heading\<close>), the direction of the next one,
  and the score. Grid coordinates are integers. The two callbacks are recorded as
  the calls a method makes.
\<close>

record Point =
  pt_x :: int
  pt_y :: int

datatype GameCallback = ScoreChange int | GameOver int

record SnakeGame =
  cols :: int
  rows :: int
  wrapAround :: bool
  speedMs :: int
  snake :: "Point list"
  food :: Point
  heading :: Point
  nextDirection :: Point
  gameRunning :: bool
  tickId :: "nat option"
  score :: int

text \<open>\<^verbatim>\<open>this.snake.some((part) => part.x === p.x && part.y === p.y)\<close>\<close>

definition onSnake :: "Point list \<Rightarrow> Point \<Rightarrow> bool" where
  "onSnake body p = list_ex (\<lambda>part. pt_x part = pt_x p \<and> pt_y part = pt_y p) body"

text \<open>
  \<^verbatim>\<open>spawnFood()\<close>, lines 780 to 790 of the listing: the list holds the cells that
  successive pairs of \<^verbatim>\<open>Math.random()\<close> draws give. The loop takes the first one
  that is not on the snake; when the draws run out first, the result is \<open>None\<close>.
\<close>

fun spawnFood :: "Point list \<Rightarrow> SnakeGame \<Rightarrow> (Point list \<times> SnakeGame) option" where
  "spawnFood [] g = None"
| "spawnFood (next # draws) g =
    (if onSnake (snake g) next then spawnFood draws g
     else Some (draws, g\<lparr>food := next\<rparr>))"

text \<open>\<^verbatim>\<open>stop()\<close> of the game.\<close>

definition stopGame :: "SnakeGame \<Rightarrow> SnakeGame" where
  "stopGame g = g\<lparr>gameRunning := False, tickId := None\<rparr>"

text \<open>\<^verbatim>\<open>reset()\<close>: \<^verbatim>\<open>Math.floor(n / 2)\<close> of an integer is \<open>n div 2\<close>.\<close>

definition resetGame :: "Point list \<Rightarrow> SnakeGame \<Rightarrow> (SnakeGame \<times> GameCallback list) option" where
  "resetGame draws g =
    (let centerX = cols g div 2;
         centerY = rows g div 2;
         g1 = g\<lparr> snake := [\<lparr>pt_x = centerX, pt_y = centerY\<rparr>,
                            \<lparr>pt_x = centerX - 1, pt_y = centerY\<rparr>,
                            \<lparr>pt_x = centerX - 2, pt_y = centerY\<rparr>],
                  heading := \<lparr>pt_x = 1, pt_y = 0\<rparr>,
                  nextDirection := \<lparr>pt_x = 1, pt_y = 0\<rparr>,
                  score := 0 \<rparr>
     in case spawnFood draws g1 of
          None \<Rightarrow> None
        | Some (rest, g2) \<Rightarrow> Some (g2, [ScoreChange (score g1)]))"

text \<open>\<^verbatim>\<open>start()\<close>; \<open>timer\<close> is the handle that \<^verbatim>\<open>setInterval\<close> returns.\<close>

definition startGame :: "Point list \<Rightarrow> nat \<Rightarrow> SnakeGame \<Rightarrow> (SnakeGame \<times> GameCallback list) option" where
  "startGame draws timer g =
    (case resetGame draws (stopGame g) of
       None \<Rightarrow> None
     | Some (g1, calls) \<Rightarrow> Some (g1\<lparr>gameRunning := True, tickId := Some timer\<rparr>, calls))"

text \<open>\<^verbatim>\<open>setDirection(direction)\<close>, lines 667 to 688 of the listing.\<close>

definition setDirection :: "HeadDirection \<Rightarrow> SnakeGame \<Rightarrow> SnakeGame" where
  "setDirection d g =
    (let current = nextDirection g
     in if d = Up \<and> pt_y current = 0 then g\<lparr>nextDirection := \<lparr>pt_x = 0, pt_y = - 1\<rparr>\<rparr>
        else if d = Down \<and> pt_y current = 0 then g\<lparr>nextDirection := \<lparr>pt_x = 0, pt_y = 1\<rparr>\<rparr>
        else if d = Left \<and> pt_x current = 0 then g\<lparr>nextDirection := \<lparr>pt_x = - 1, pt_y = 0\<rparr>\<rparr>
        else if d = Right \<and> pt_x current = 0 then g\<lparr>nextDirection := \<lparr>pt_x = 1, pt_y = 0\<rparr>\<rparr>
        else g)"

text \<open>\<^verbatim>\<open>tick()\<close>, lines 703 to 762 of the listing.\<close>

definition tick :: "Point list \<Rightarrow> SnakeGame \<Rightarrow> (SnakeGame \<times> GameCallback list) option" where
  "tick draws g =
    (if \<not> gameRunning g then Some (g, [])
     else case snake g of
       [] \<Rightarrow> Some (g, [])
     | head # _ \<Rightarrow>
        (let g1 = g\<lparr>heading := nextDirection g\<rparr>;
             nextX0 = pt_x head + pt_x (heading g1);
             nextY0 = pt_y head + pt_y (heading g1);
             hitsWall = (nextX0 < 0 \<or> nextX0 \<ge> cols g1 \<or> nextY0 < 0 \<or> nextY0 \<ge> rows g1)
         in if hitsWall \<and> \<not> wrapAround g1
            then Some (stopGame g1, [GameOver (score g1)])
            else (let nextX = (if wrapAround g1
                               then (if nextX0 < 0 then cols g1 - 1
                                     else if nextX0 \<ge> cols g1 then 0 else nextX0)
                               else nextX0);
                      nextY = (if wrapAround g1
                               then (if nextY0 < 0 then rows g1 - 1
                                     else if nextY0 \<ge> rows g1 then 0 else nextY0)
                               else nextY0);
                      nextHead = \<lparr>pt_x = nextX, pt_y = nextY\<rparr>;
                      willGrow = (pt_x nextHead = pt_x (food g1) \<and> pt_y nextHead = pt_y (food g1));
                      bodyToCheck = (if willGrow then snake g1 else butlast (snake g1));
                      hitsBody = onSnake bodyToCheck nextHead
                  in if hitsBody
                     then Some (stopGame g1, [GameOver (score g1)])
                     else (let g2 = g1\<lparr>snake := nextHead # snake g1\<rparr>
                           in if willGrow
                              then (let g3 = g2\<lparr>score := score g2 + 1\<rparr>
                                    in case spawnFood draws g3 of
                                         None \<Rightarrow> None
                                       | Some (rest, g4) \<Rightarrow> Some (g4, [ScoreChange (score g3)]))
                              else Some (g2\<lparr>snake := butlast (snake g2)\<rparr>, [])))))"

text \<open>The exact opposite of a direction of movement.\<close>

definition opposite :: "Point \<Rightarrow> Point" where
  "opposite p = \<lparr>pt_x = - pt_x p, pt_y = - pt_y p\<rparr>"

subsection \<open>Concrete inputs\<close>

text \<open>
  A pose of thirteen landmarks with the shoulders at \<open>(0.6, 0.5)\<close> and \<open>(0.4, 0.5)\<close>,
  so of shoulder width \<open>0.2\<close> around \<open>(0.5, 0.5)\<close>, and the nose where it is given.
\<close>

definition pose :: "real \<Rightarrow> real \<Rightarrow> Landmark list" where
  "pose noseX noseY =
    \<lparr>lm_x = noseX, lm_y = noseY\<rparr> # replicate 10 \<lparr>lm_x = 0, lm_y = 0\<rparr>
      @ [\<lparr>lm_x = 0.6, lm_y = 0.5\<rparr>, \<lparr>lm_x = 0.4, lm_y = 0.5\<rparr>]"

text \<open>
  A controller after \<^verbatim>\<open>start\<close> (not mirrored, sensitivity \<open>1\<close>, one listener
  registered), and the same one calibrated to the baseline \<open>(0, 0, 0.2)\<close>, which
  gives the threshold \<open>0.018\<close>.
\<close>

definition startedController :: Controller where
  "startedController =
    (newController (Some False) None)
      \<lparr> listeners := [7],
        stream := Some 0,
        video := Some \<lparr>hasSrcObject = True, paused = False\<rparr>,
        poseLandmarker := Some 0,
        running := True,
        snapshot := \<lparr> tracking = False, calibrated = False, fps = 0,
                      debug = ''Camera started'', lastDirection = None \<rparr> \<rparr>"

definition calibratedController :: Controller where
  "calibratedController =
    startedController
      \<lparr> baseline := Some \<lparr>noseOffsetX = 0, noseOffsetY = 0, shoulderWidth = 0.2\<rparr>,
        snapshot := \<lparr> tracking = True, calibrated = True, fps = 0,
                      debug = ''Calibrated'', lastDirection = None \<rparr> \<rparr>"

text \<open>
  Frames at a given time: the nose \<open>0.1\<close> to the right of the shoulder centre, the
  nose \<open>0.2\<close> above it, and nobody in the picture.
\<close>

definition noseRight :: "real \<Rightarrow> Frame" where
  "noseRight t = \<lparr>now = t, landmarks = Some (pose 0.6 0.5), raf = 1\<rparr>"

definition noseUp :: "real \<Rightarrow> Frame" where
  "noseUp t = \<lparr>now = t, landmarks = Some (pose 0.5 0.3), raf = 1\<rparr>"

definition nobody :: "real \<Rightarrow> Frame" where
  "nobody t = \<lparr>now = t, landmarks = None, raf = 1\<rparr>"

text \<open>The controller after the driver has run \<^verbatim>\<open>loop()\<close> on each frame of a list.\<close>

definition runFrames :: "Frame list \<Rightarrow> Controller \<Rightarrow> Controller" where
  "runFrames fs st = foldl (\<lambda>s f. controller (loop f s)) st fs"

text \<open>
  The calibrated controller after three frames with the nose to the right: the
  second frame has emitted \<open>right\<close>, the third has made \<open>right\<close> the candidate again.
\<close>

definition heldRight :: Controller where
  "heldRight = runFrames [noseRight 1000, noseRight 1033, noseRight 1066] calibratedController"

text \<open>
  The same after one frame with the nose to the right (\<open>right\<close> is the candidate,
  nothing emitted yet), and after two such frames and one with the nose up (\<open>right\<close>
  emitted at \<open>1033\<close>, \<open>up\<close> the candidate).
\<close>

definition firstRight :: Controller where
  "firstRight = runFrames [noseRight 1000] calibratedController"

definition turningUp :: Controller where
  "turningUp = runFrames [noseRight 1000, noseRight 1033, noseUp 1066] calibratedController"

text \<open>
  Frames for a calibration that starts at time \<open>0\<close>: the subject sits with the nose
  \<open>0.2\<close> above the shoulder line; the frame at \<open>1800\<close> is the one whose clock ends
  the loop. The second list has nobody in the picture at \<open>300\<close>.
\<close>

definition sitting :: "real \<Rightarrow> real \<Rightarrow> Frame" where
  "sitting t noseX = \<lparr>now = t, landmarks = Some (pose noseX 0.3), raf = 1\<rparr>"

definition sixSamples :: "Frame list" where
  "sixSamples = [sitting 0 0.50, sitting 300 0.51, sitting 600 0.52, sitting 900 0.53,
                 sitting 1200 0.54, sitting 1500 0.55, nobody 1800]"

definition fiveSamples :: "Frame list" where
  "fiveSamples = [sitting 0 0.50, nobody 300, sitting 600 0.52, sitting 900 0.53,
                  sitting 1200 0.54, sitting 1500 0.55, nobody 1800]"

text \<open>A game on the default grid of 28 by 18 cells, before \<^verbatim>\<open>start()\<close>.\<close>

definition idleGame :: SnakeGame where
  "idleGame =
    \<lparr> cols = 28, rows = 18, wrapAround = False, speedMs = 140,
      snake = [\<lparr>pt_x = 14, pt_y = 9\<rparr>, \<lparr>pt_x = 13, pt_y = 9\<rparr>, \<lparr>pt_x = 12, pt_y = 9\<rparr>],
      food = \<lparr>pt_x = 3, pt_y = 3\<rparr>,
      heading = \<lparr>pt_x = 1, pt_y = 0\<rparr>,
      nextDirection = \<lparr>pt_x = 1, pt_y = 0\<rparr>,
      gameRunning = False, tickId = None, score = 0 \<rparr>"

text \<open>
  The game as \<^verbatim>\<open>start()\<close> leaves it when the food is drawn at \<open>(3, 3)\<close>, and after
  its first tick, which moves the snake one cell to the right.
\<close>

definition startedGame :: SnakeGame where
  "startedGame = idleGame\<lparr>gameRunning := True, tickId := Some 1\<rparr>"

definition movingRight :: SnakeGame where
  "movingRight =
    startedGame\<lparr>snake := [\<lparr>pt_x = 15, pt_y = 9\<rparr>, \<lparr>pt_x = 14, pt_y = 9\<rparr>, \<lparr>pt_x = 13, pt_y = 9\<rparr>]\<rparr>"

subsection \<open>Facts about the numeric helpers\<close>

lemma clamp01_quot_nonzero: "d \<noteq> 0 \<Longrightarrow> clamp01_quot n d = clamp01 (n / d)"
  by (simp add: clamp01_quot_def)

lemma clamp01_range: "0 \<le> clamp01 v \<and> clamp01 v \<le> 1"
  by (simp add: clamp01_def)

lemma clamp01_quot_range: "0 \<le> clamp01_quot n d \<and> clamp01_quot n d \<le> 1"
  by (simp add: clamp01_quot_def clamp01_def)

lemma hypot_zero_right: "hypot a 0 = \<bar>a\<bar>"
  by (simp add: hypot_def)

lemma foldl_add_sum_list: "foldl (\<lambda>sum v. sum + v) a xs = a + sum_list (xs :: real list)"
  by (induction xs arbitrary: a) simp_all

lemma average_mean: "xs \<noteq> [] \<Longrightarrow> average xs = sum_list xs / real (length xs)"
proof -
  assume "xs \<noteq> []"
  then have "max (length xs) 1 = length xs"
    by (cases xs) simp_all
  then show ?thesis
    by (simp add: average_def foldl_add_sum_list)
qed

subsection \<open>Facts about binary64 rounding\<close>

lemma pow2_powr: "pow2 e = 2 powr (of_int e)"
  by (simp add: pow2_def powr_real_of_int inverse_eq_divide)

lemma floor_log2:
  assumes "0 < x" and "pow2 e \<le> x" and "x < pow2 (e + 1)"
  shows "\<lfloor>log 2 x\<rfloor> = e"
proof -
  have "of_int e \<le> log 2 x"
    using assms(1,2) by (simp add: le_log_iff pow2_powr)
  moreover have "log 2 x < of_int e + 1"
    using assms(1,3) by (simp add: log_less_iff pow2_powr)
  ultimately show ?thesis
    by (simp add: floor_unique)
qed

lemma pow2_shift: "pow2 (e - 52) * 2 ^ n = pow2 (e - 52 + int n)"
proof -
  have "(2::real) ^ n = 2 powr (of_int (int n))"
    by (simp add: powr_realpow)
  then show ?thesis
    by (simp add: pow2_powr powr_add [symmetric])
qed

lemma fl_at:
  assumes u: "u = pow2 (e - 52)" and e: "- 1022 \<le> e"
    and lo: "u * 2 ^ 52 \<le> \<bar>v\<bar>" and hi: "\<bar>v\<bar> < u * 2 ^ 53"
  shows "fl v = of_int (round_even (v / u)) * u"
proof -
  have a: "u * 2 ^ 52 = pow2 e"
    using pow2_shift [of e 52] u by simp
  have b: "u * 2 ^ 53 = pow2 (e + 1)"
    using pow2_shift [of e 53] u by (simp add: algebra_simps)
  have "0 < pow2 e"
    by (simp add: pow2_powr)
  with lo a have pos: "0 < \<bar>v\<bar>"
    by linarith
  have "pow2 e \<le> \<bar>v\<bar>" and "\<bar>v\<bar> < pow2 (e + 1)"
    using lo hi unfolding a b by simp_all
  from floor_log2 [OF pos this] have "\<lfloor>log 2 \<bar>v\<bar>\<rfloor> = e" .
  then show ?thesis
    using pos e u by (simp add: fl_def Let_def max_def)
qed

lemma round_even_near: "\<bar>of_int (round_even r) - r\<bar> \<le> 1 / 2"
  unfolding round_even_def Let_def by (auto simp: abs_if) linarith+

lemma fl_error:
  assumes "- 1022 \<le> e" and "pow2 e \<le> \<bar>v\<bar>" and "\<bar>v\<bar> < pow2 (e + 1)"
  shows "\<bar>fl v - v\<bar> \<le> pow2 (e - 52) / 2"
proof -
  let ?u = "pow2 (e - 52)"
  have pos: "0 < ?u"
    by (simp add: pow2_powr)
  have a: "?u * 2 ^ 52 = pow2 e"
    using pow2_shift [of e 52] by simp
  have b: "?u * 2 ^ 53 = pow2 (e + 1)"
    using pow2_shift [of e 53] by (simp add: algebra_simps)
  have lo: "?u * 2 ^ 52 \<le> \<bar>v\<bar>"
    using assms(2) by (simp only: a)
  have hi: "\<bar>v\<bar> < ?u * 2 ^ 53"
    using assms(3) by (simp only: b)
  have eq: "fl v = of_int (round_even (v / ?u)) * ?u"
    by (rule fl_at [OF refl assms(1) lo hi])
  have "fl v - v = (of_int (round_even (v / ?u)) - v / ?u) * ?u"
    using pos by (simp add: eq left_diff_distrib)
  then have "\<bar>fl v - v\<bar> = \<bar>of_int (round_even (v / ?u)) - v / ?u\<bar> * ?u"
    using pos by (simp add: abs_mult)
  also have "\<dots> \<le> 1 / 2 * ?u"
    using round_even_near [of "v / ?u"] pos by (intro mult_right_mono) simp_all
  finally show ?thesis by simp
qed

lemma lit_values:
  "lit_0_95 = 4278419646001971 / 4503599627370496"
  "lit_1_05 = 4728779608739021 / 4503599627370496"
  "lit_1_35 = 3039929748475085 / 2251799813685248"
  "lit_1_12 = 1261007895663739 / 1125899906842624"
  "lit_2_1 = 4728779608739021 / 2251799813685248"
proof -
  show "lit_0_95 = 4278419646001971 / 4503599627370496"
    unfolding lit_0_95_def
    by (subst fl_at [where e = "- 1" and u = "1 / 2 ^ 53"]) (simp_all add: pow2_def round_even_def)
  show "lit_1_05 = 4728779608739021 / 4503599627370496"
    unfolding lit_1_05_def
    by (subst fl_at [where e = 0 and u = "1 / 2 ^ 52"]) (simp_all add: pow2_def round_even_def)
  show "lit_1_35 = 3039929748475085 / 2251799813685248"
    unfolding lit_1_35_def
    by (subst fl_at [where e = 0 and u = "1 / 2 ^ 52"]) (simp_all add: pow2_def round_even_def)
  show "lit_1_12 = 1261007895663739 / 1125899906842624"
    unfolding lit_1_12_def
    by (subst fl_at [where e = 0 and u = "1 / 2 ^ 52"]) (simp_all add: pow2_def round_even_def)
  show "lit_2_1 = 4728779608739021 / 2251799813685248"
    unfolding lit_2_1_def
    by (subst fl_at [where e = 1 and u = "1 / 2 ^ 51"]) (simp_all add: pow2_def round_even_def)
qed

lemma mul64_zero: "mul64 0 b = 0"
  by (simp add: mul64_def fl_def)

lemma representable: "fl 28 = 28" "fl 25 = 25" "fl 1 = 1"
proof -
  show "fl 28 = 28"
    by (subst fl_at [where e = 4 and u = "1 / 2 ^ 48"]) (simp_all add: pow2_def round_even_def)
  show "fl 25 = 25"
    by (subst fl_at [where e = 4 and u = "1 / 2 ^ 48"]) (simp_all add: pow2_def round_even_def)
  show "fl 1 = 1"
    by (subst fl_at [where e = 0 and u = "1 / 2 ^ 52"]) (simp_all add: pow2_def round_even_def)
qed

lemma products_1_12:
  "mul64 25 lit_1_12 = 28 + 1 / 2 ^ 48"
  "mul64 28 lit_1_12 = 8827055269646173 / 281474976710656"
  "mul64 1 lit_1_12 = 1261007895663739 / 1125899906842624"
  "mul64 2 lit_1_12 = 1261007895663739 / 562949953421312"
proof -
  show "mul64 25 lit_1_12 = 28 + 1 / 2 ^ 48"
    unfolding mul64_def lit_values
    by (subst fl_at [where e = 4 and u = "1 / 2 ^ 48"]) (simp_all add: pow2_def round_even_def)
  show "mul64 28 lit_1_12 = 8827055269646173 / 281474976710656"
    unfolding mul64_def lit_values
    by (subst fl_at [where e = 4 and u = "1 / 2 ^ 48"]) (simp_all add: pow2_def round_even_def)
  show "mul64 1 lit_1_12 = 1261007895663739 / 1125899906842624"
    unfolding mul64_def lit_values
    by (subst fl_at [where e = 0 and u = "1 / 2 ^ 52"]) (simp_all add: pow2_def round_even_def)
  show "mul64 2 lit_1_12 = 1261007895663739 / 562949953421312"
    unfolding mul64_def lit_values
    by (subst fl_at [where e = 1 and u = "1 / 2 ^ 51"]) (simp_all add: pow2_def round_even_def)
qed

lemma thresholds_at_1:
  "mul64 1 lit_0_95 = 4278419646001971 / 4503599627370496"
  "mul64 1 lit_1_05 = 4728779608739021 / 4503599627370496"
  "mul64 1 lit_1_35 = 3039929748475085 / 2251799813685248"
proof -
  show "mul64 1 lit_0_95 = 4278419646001971 / 4503599627370496"
    unfolding mul64_def lit_values
    by (subst fl_at [where e = "- 1" and u = "1 / 2 ^ 53"]) (simp_all add: pow2_def round_even_def)
  show "mul64 1 lit_1_05 = 4728779608739021 / 4503599627370496"
    unfolding mul64_def lit_values
    by (subst fl_at [where e = 0 and u = "1 / 2 ^ 52"]) (simp_all add: pow2_def round_even_def)
  show "mul64 1 lit_1_35 = 3039929748475085 / 2251799813685248"
    unfolding mul64_def lit_values
    by (subst fl_at [where e = 0 and u = "1 / 2 ^ 52"]) (simp_all add: pow2_def round_even_def)
qed

lemma divisors_at_1:
  "mul64 (4278419646001971 / 4503599627370496) lit_2_1 = 8984681256604139 / 4503599627370496"
  "mul64 (4728779608739021 / 4503599627370496) lit_2_1 = 1241304647293993 / 562949953421312"
  "mul64 (3039929748475085 / 2251799813685248) lit_2_1 = 6383852471797679 / 2251799813685248"
proof -
  show "mul64 (4278419646001971 / 4503599627370496) lit_2_1 = 8984681256604139 / 4503599627370496"
    unfolding mul64_def lit_values
    by (subst fl_at [where e = 0 and u = "1 / 2 ^ 52"]) (simp_all add: pow2_def round_even_def)
  show "mul64 (4728779608739021 / 4503599627370496) lit_2_1 = 1241304647293993 / 562949953421312"
    unfolding mul64_def lit_values
    by (subst fl_at [where e = 1 and u = "1 / 2 ^ 51"]) (simp_all add: pow2_def round_even_def)
  show "mul64 (3039929748475085 / 2251799813685248) lit_2_1 = 6383852471797679 / 2251799813685248"
    unfolding mul64_def lit_values
    by (subst fl_at [where e = 1 and u = "1 / 2 ^ 51"]) (simp_all add: pow2_def round_even_def)
qed

lemma quotients_at_1:
  "fl (4503599627370496 / 8984681256604139) = 4514886844481701 / 9007199254740992"
  "fl (1125899906842624 / 1241304647293993) = 8169795242395457 / 9007199254740992"
  "fl (4503599627370496 / 6383852471797679) = 6354285188529799 / 9007199254740992"
proof -
  show "fl (4503599627370496 / 8984681256604139) = 4514886844481701 / 9007199254740992"
    by (subst fl_at [where e = "- 1" and u = "1 / 2 ^ 53"]) (simp_all add: pow2_def round_even_def)
  show "fl (1125899906842624 / 1241304647293993) = 8169795242395457 / 9007199254740992"
    by (subst fl_at [where e = "- 1" and u = "1 / 2 ^ 53"]) (simp_all add: pow2_def round_even_def)
  show "fl (4503599627370496 / 6383852471797679) = 6354285188529799 / 9007199254740992"
    by (subst fl_at [where e = "- 1" and u = "1 / 2 ^ 53"]) (simp_all add: pow2_def round_even_def)
qed

lemma products_boundary:
  "mul64 (25 / 64) lit_1_12 = 7 / 16 + 1 / 2 ^ 54"
  "mul64 (7 / 16) lit_1_12 = 8827055269646173 / 18014398509481984"
proof -
  show "mul64 (25 / 64) lit_1_12 = 7 / 16 + 1 / 2 ^ 54"
    unfolding mul64_def lit_values
    by (subst fl_at [where e = "- 2" and u = "1 / 2 ^ 54"]) (simp_all add: pow2_def round_even_def)
  show "mul64 (7 / 16) lit_1_12 = 8827055269646173 / 18014398509481984"
    unfolding mul64_def lit_values
    by (subst fl_at [where e = "- 2" and u = "1 / 2 ^ 54"]) (simp_all add: pow2_def round_even_def)
qed

lemma representable_boundary: "fl (7 / 16) = 7 / 16" "fl (25 / 64) = 25 / 64" "fl (1 / 64) = 1 / 64"
proof -
  show "fl (7 / 16) = 7 / 16"
    by (subst fl_at [where e = "- 2" and u = "1 / 2 ^ 54"]) (simp_all add: pow2_def round_even_def)
  show "fl (25 / 64) = 25 / 64"
    by (subst fl_at [where e = "- 2" and u = "1 / 2 ^ 54"]) (simp_all add: pow2_def round_even_def)
  show "fl (1 / 64) = 1 / 64"
    by (subst fl_at [where e = "- 6" and u = "1 / 2 ^ 58"]) (simp_all add: pow2_def round_even_def)
qed

subsection \<open>Facts about the loop\<close>

lemma pose_items:
  "itemAt (pose a b) 0 = Some \<lparr>lm_x = a, lm_y = b\<rparr>"
  "itemAt (pose a b) 11 = Some \<lparr>lm_x = 0.6, lm_y = 0.5\<rparr>"
  "itemAt (pose a b) 12 = Some \<lparr>lm_x = 0.4, lm_y = 0.5\<rparr>"
  by (simp_all add: itemAt_def pose_def nth_append nth_Cons')

lemma debounce_emitted:
  assumes "emitted (debounce t h sig st) = Some e"
  shows "\<exists>d c. sig = Some (d, c) \<and> candidateDirection st = Some d
           \<and> Some d \<noteq> lastEmittedDirection st
           \<and> requiredFrames (max (candidateConfidence st) c) \<le> candidateFrameCount st + 1
           \<and> 90 \<le> t - lastEmitAt st
           \<and> e = \<lparr>direction = d, confidence = max (candidateConfidence st) c, timestamp = t\<rparr>"
  using assms
  by (auto simp: debounce_def nextFrame_def Let_def minGapMs_def split: option.splits if_splits)

lemma debounce_notified:
  "notified (debounce t h sig st) =
    (case emitted (debounce t h sig st) of
       None \<Rightarrow> []
     | Some e \<Rightarrow> map (\<lambda>listener. (listener, e)) (listeners st))"
  by (auto simp: debounce_def nextFrame_def Let_def split: option.splits)

lemma debounce_listeners: "listeners (controller (debounce t h sig st)) = listeners st"
  by (auto simp: debounce_def nextFrame_def Let_def split: option.splits)

lemma smoothAndResolve_keeps:
  "listeners (snd (smoothAndResolve nose l r w b st)) = listeners st"
  "lastEmittedDirection (snd (smoothAndResolve nose l r w b st)) = lastEmittedDirection st"
  "lastEmitAt (snd (smoothAndResolve nose l r w b st)) = lastEmitAt st"
  "candidateDirection (snd (smoothAndResolve nose l r w b st)) = candidateDirection st"
  "candidateFrameCount (snd (smoothAndResolve nose l r w b st)) = candidateFrameCount st"
  "candidateConfidence (snd (smoothAndResolve nose l r w b st)) = candidateConfidence st"
  by (simp_all add: smoothAndResolve_def Let_def)

lemma countFrame_keeps:
  "listeners (countFrame t st) = listeners st"
  "lastEmittedDirection (countFrame t st) = lastEmittedDirection st"
  "lastEmitAt (countFrame t st) = lastEmitAt st"
  "candidateDirection (countFrame t st) = candidateDirection st"
  "candidateFrameCount (countFrame t st) = candidateFrameCount st"
  "candidateConfidence (countFrame t st) = candidateConfidence st"
  "baseline (countFrame t st) = baseline st"
  "snapshot (countFrame t st) = snapshot st"
  by (simp_all add: countFrame_def Let_def)

lemma track_emitted:
  assumes "emitted (track t h nose l r st) = Some e"
  shows "candidateDirection st = Some (direction e)
         \<and> Some (direction e) \<noteq> lastEmittedDirection st
         \<and> 90 \<le> t - lastEmitAt st \<and> timestamp e = t"
  using assms
  by (auto simp: track_def Let_def nextFrame_def smoothAndResolve_keeps
      split: option.splits if_splits dest!: debounce_emitted)

lemma track_notified:
  "notified (track t h nose l r st) =
    (case emitted (track t h nose l r st) of
       None \<Rightarrow> []
     | Some e \<Rightarrow> map (\<lambda>listener. (listener, e)) (listeners st))"
  by (simp add: track_def Let_def nextFrame_def smoothAndResolve_keeps debounce_notified
      split: option.splits)

lemma track_listeners: "listeners (controller (track t h nose l r st)) = listeners st"
  by (simp add: track_def Let_def nextFrame_def smoothAndResolve_keeps debounce_listeners
      split: option.splits)

lemma loop_emitted:
  assumes "emitted (loop f st) = Some e"
  shows "candidateDirection st = Some (direction e)
         \<and> Some (direction e) \<noteq> lastEmittedDirection st
         \<and> 90 \<le> now f - lastEmitAt st \<and> timestamp e = now f"
  using assms
  by (auto simp: loop_def Let_def trackingLost_def nextFrame_def countFrame_keeps
      split: option.splits if_splits dest!: track_emitted)

lemma loop_notified:
  "notified (loop f st) =
    (case emitted (loop f st) of
       None \<Rightarrow> []
     | Some e \<Rightarrow> map (\<lambda>listener. (listener, e)) (listeners st))"
  by (simp add: loop_def Let_def trackingLost_def nextFrame_def countFrame_keeps track_notified
      split: option.splits)

lemma loop_listeners: "listeners (controller (loop f st)) = listeners st"
  by (simp add: loop_def Let_def trackingLost_def nextFrame_def countFrame_keeps track_listeners
      split: option.splits)

text \<open>
  A candidate has been seen on at least one frame. The invariant holds of a new
  controller and after \<^verbatim>\<open>stop\<close> and \<^verbatim>\<open>calibrate\<close>, which clear the candidate, and
  the loop keeps it.
\<close>

lemma debounce_candidate_count:
  assumes "candidateDirection st \<noteq> None \<longrightarrow> 1 \<le> candidateFrameCount st"
  shows "candidateDirection (controller (debounce t h sig st)) \<noteq> None
         \<longrightarrow> 1 \<le> candidateFrameCount (controller (debounce t h sig st))"
  using assms
  by (auto simp: debounce_def nextFrame_def Let_def split: option.splits)

lemma loop_candidate_count:
  assumes "candidateDirection st \<noteq> None \<longrightarrow> 1 \<le> candidateFrameCount st"
  shows "candidateDirection (controller (loop f st)) \<noteq> None
         \<longrightarrow> 1 \<le> candidateFrameCount (controller (loop f st))"
proof -
  have track: "candidateDirection (controller (track t h nose l r s)) \<noteq> None
         \<longrightarrow> 1 \<le> candidateFrameCount (controller (track t h nose l r s))"
    if "candidateDirection s \<noteq> None \<longrightarrow> 1 \<le> candidateFrameCount s" for t h nose l r s
    using that debounce_candidate_count
    by (simp add: track_def Let_def nextFrame_def smoothAndResolve_keeps split: option.splits)
  show ?thesis
    using assms track
    by (simp add: loop_def Let_def trackingLost_def nextFrame_def countFrame_keeps
        split: option.splits)
qed

text \<open>The frame test of line 411 holds from the second frame of a candidate on.\<close>

lemma requiredFrames_second_tick: "1 \<le> n \<Longrightarrow> requiredFrames conf \<le> n + 1"
  by (simp add: requiredFrames_def)

text \<open>The definitions that evaluate the loop on the concrete inputs.\<close>

lemmas eval_loop = loop_def noseRight_def noseUp_def nobody_def calibratedController_def
  startedController_def newController_def countFrame_def pose_items track_def
  smoothAndResolve_def Let_def hypot_zero_right debounce_def resolveDirection_def nextFrame_def
  clamp01_quot_def clamp01_def round_half_up_def requiredFrames_def minGapMs_def
  trackingLost_def runFrames_def getSnapshot_def

lemma heldRight_eq:
  "heldRight =
    calibratedController
      \<lparr> rafId := Some 1, frameCount := 2, fpsTickStart := 1000, ctl_fps := 1,
        lastEmittedDirection := Some Right, lastEmitAt := 1033,
        candidateDirection := Some Right, candidateFrameCount := 1, candidateConfidence := 1,
        smoothedDx := 6669 / 80000,
        snapshot := \<lparr> tracking = True, calibrated = True, fps = 1, debug = ''Tracking'',
                      lastDirection = Some Right \<rparr> \<rparr>"
  by (simp add: heldRight_def eval_loop)

lemma turningUp_eq:
  "turningUp =
    calibratedController
      \<lparr> rafId := Some 1, frameCount := 2, fpsTickStart := 1000, ctl_fps := 1,
        lastEmittedDirection := Some Right, lastEmitAt := 1033,
        candidateDirection := Some Up, candidateFrameCount := 1, candidateConfidence := 1,
        smoothedDx := 3069 / 80000, smoothedDy := - (9 / 100),
        snapshot := \<lparr> tracking = True, calibrated = True, fps = 1, debug = ''Tracking'',
                      lastDirection = Some Right \<rparr> \<rparr>"
  by (simp add: turningUp_def eval_loop)

lemma firstRight_eq:
  "firstRight =
    calibratedController
      \<lparr> rafId := Some 1, frameCount := 0, fpsTickStart := 1000, ctl_fps := 1,
        candidateDirection := Some Right, candidateFrameCount := 1, candidateConfidence := 1,
        smoothedDx := 9 / 200,
        snapshot := \<lparr> tracking = True, calibrated = True, fps = 1, debug = ''Tracking'',
                      lastDirection = None \<rparr> \<rparr>"
  by (simp add: firstRight_def eval_loop)

subsection \<open>Facts about calibration\<close>

lemma captureBaselineSample_valid:
  assumes "captureBaselineSample st detected = Some sample"
  shows "\<exists>lms nose leftShoulder rightShoulder.
           detected = Some lms \<and> itemAt lms 0 = Some nose
           \<and> itemAt lms 11 = Some leftShoulder \<and> itemAt lms 12 = Some rightShoulder
           \<and> shoulderWidth sample
               = hypot (lm_x leftShoulder - lm_x rightShoulder) (lm_y leftShoulder - lm_y rightShoulder)
           \<and> noseOffsetX sample = lm_x nose - (lm_x leftShoulder + lm_x rightShoulder) / 2
           \<and> noseOffsetY sample = lm_y nose - (lm_y leftShoulder + lm_y rightShoulder) / 2
           \<and> 0.0001 \<le> shoulderWidth sample"
  using assms
  by (auto simp: captureBaselineSample_def Let_def split: option.splits if_splits)

lemma collectSamples_result:
  assumes "collectSamples st startedAt fs acc = Some samples"
  shows "\<exists>n<length fs.
           samples = acc @ List.map_filter (\<lambda>f. captureBaselineSample st (landmarks f)) (take n fs)
           \<and> \<not> (length samples < 12 \<and> now (fs ! n) - startedAt < 1800)
           \<and> (\<forall>k<n. now (fs ! k) - startedAt < 1800)"
  using assms
proof (induction fs arbitrary: acc)
  case Nil
  then show ?case by simp
next
  case (Cons f fs)
  show ?case
  proof (cases "length acc < 12 \<and> now f - startedAt < 1800")
    case False
    with Cons.prems have "samples = acc" by auto
    with False show ?thesis
      by (intro exI [of _ 0]) (simp add: List.map_filter_simps)
  next
    case True
    let ?acc = "case captureBaselineSample st (landmarks f) of
                  None \<Rightarrow> acc | Some sample \<Rightarrow> acc @ [sample]"
    from True Cons.prems have "collectSamples st startedAt fs ?acc = Some samples"
      by simp
    from Cons.IH [OF this] obtain n where n: "n < length fs"
      and s: "samples = ?acc @ List.map_filter (\<lambda>f. captureBaselineSample st (landmarks f)) (take n fs)"
      and e: "\<not> (length samples < 12 \<and> now (fs ! n) - startedAt < 1800)"
      and b: "\<forall>k<n. now (fs ! k) - startedAt < 1800"
      by blast
    have "samples = acc @ List.map_filter (\<lambda>f. captureBaselineSample st (landmarks f)) (take (Suc n) (f # fs))"
      using s by (simp add: List.map_filter_simps split: option.splits)
    moreover have "\<forall>k<Suc n. now ((f # fs) ! k) - startedAt < 1800"
      using b True by (auto simp: nth_Cons split: nat.splits)
    ultimately show ?thesis
      using n e by (intro exI [of _ "Suc n"]) simp
  qed
qed

lemma collectSamples_terminates:
  assumes "\<exists>f \<in> set fs. 1800 \<le> now f - startedAt"
  shows "\<exists>samples. collectSamples st startedAt fs acc = Some samples"
  using assms by (induction fs arbitrary: acc) auto

text \<open>
  The call returns once a frame arrives whose clock is \<open>1800\<close> ms or more past the
  start.
\<close>

lemma calibrate_returns:
  assumes "\<exists>f \<in> set frames. 1800 \<le> now f - startedAt"
  shows "\<exists>outcome. calibrate startedAt frames st = Some outcome"
  using collectSamples_terminates [OF assms, of st "[]"]
  by (auto simp: calibrate_def)

lemma collected_valid:
  assumes "collectSamples st startedAt fs [] = Some samples" and "sample \<in> set samples"
  shows "0.0001 \<le> shoulderWidth sample"
proof -
  from collectSamples_result [OF assms(1)] obtain n where
    "samples = List.map_filter (\<lambda>f. captureBaselineSample st (landmarks f)) (take n fs)"
    by auto
  with assms(2) have "\<exists>f :: Frame. captureBaselineSample st (landmarks f) = Some sample"
    by (auto simp: List.map_filter_def)
  then obtain f :: Frame where "captureBaselineSample st (landmarks f) = Some sample"
    by blast
  from captureBaselineSample_valid [OF this] show ?thesis by blast
qed

lemmas eval_calibrate = calibrate_def sitting_def sixSamples_def fiveSamples_def nobody_def
  captureBaselineSample_def pose_items hypot_zero_right Let_def average_def
  calibratedController_def startedController_def newController_def

lemma sixSamples_collected:
  "collectSamples heldRight 0 sixSamples [] =
    Some [\<lparr>noseOffsetX = 0, noseOffsetY = - 0.2, shoulderWidth = 0.2\<rparr>,
          \<lparr>noseOffsetX = 0.01, noseOffsetY = - 0.2, shoulderWidth = 0.2\<rparr>,
          \<lparr>noseOffsetX = 0.02, noseOffsetY = - 0.2, shoulderWidth = 0.2\<rparr>,
          \<lparr>noseOffsetX = 0.03, noseOffsetY = - 0.2, shoulderWidth = 0.2\<rparr>,
          \<lparr>noseOffsetX = 0.04, noseOffsetY = - 0.2, shoulderWidth = 0.2\<rparr>,
          \<lparr>noseOffsetX = 0.05, noseOffsetY = - 0.2, shoulderWidth = 0.2\<rparr>]"
  by (simp add: heldRight_eq eval_calibrate)

lemma fiveSamples_collected:
  assumes "video st \<noteq> None" and "poseLandmarker st \<noteq> None"
  shows "collectSamples st 0 fiveSamples [] =
    Some [\<lparr>noseOffsetX = 0, noseOffsetY = - 0.2, shoulderWidth = 0.2\<rparr>,
          \<lparr>noseOffsetX = 0.02, noseOffsetY = - 0.2, shoulderWidth = 0.2\<rparr>,
          \<lparr>noseOffsetX = 0.03, noseOffsetY = - 0.2, shoulderWidth = 0.2\<rparr>,
          \<lparr>noseOffsetX = 0.04, noseOffsetY = - 0.2, shoulderWidth = 0.2\<rparr>,
          \<lparr>noseOffsetX = 0.05, noseOffsetY = - 0.2, shoulderWidth = 0.2\<rparr>]"
  using assms
  by (simp add: sitting_def fiveSamples_def nobody_def captureBaselineSample_def pose_items
      hypot_zero_right Let_def)

subsection \<open>Facts about the listeners\<close>

lemma set_add_twice: "set_add v (set_add v vs) = set_add v vs"
  by (simp add: set_add_def)

lemma set_add_member: "v \<in> set (set_add v vs)"
  by (simp add: set_add_def)

lemma set_add_distinct: "distinct vs \<Longrightarrow> distinct (set_add v vs)"
  by (simp add: set_add_def)

lemma set_delete_distinct: "distinct vs \<Longrightarrow> distinct (set_delete v vs)"
  by (simp add: set_delete_def)

lemma set_delete_gone: "v \<notin> set (set_delete v vs)"
  by (simp add: set_delete_def)

lemma calls_of_listener:
  "filter (\<lambda>call. fst call = l) (map (\<lambda>listener. (listener, e)) ls)
    = map (\<lambda>listener. (listener, e)) (filter (\<lambda>listener. listener = l) ls)"
  by (induction ls) simp_all

lemma filter_eq_distinct:
  "distinct ls \<Longrightarrow> l \<in> set ls \<Longrightarrow> filter (\<lambda>listener. listener = l) ls = [l]"
  by (induction ls) (auto simp: filter_empty_conv)

lemma filter_eq_absent: "l \<notin> set ls \<Longrightarrow> filter (\<lambda>listener. listener = l) ls = []"
  by (auto simp: filter_empty_conv)

lemma runFrames_listeners: "listeners (runFrames fs st) = listeners st"
proof -
  have "listeners (foldl (\<lambda>s f. controller (loop f s)) st fs) = listeners st"
    by (induction fs arbitrary: st) (simp_all add: loop_listeners)
  then show ?thesis by (simp add: runFrames_def)
qed

lemma stop_listeners: "listeners (stop st) = listeners st"
  by (simp add: stop_def)

lemma calibrate_listeners:
  "calibrate startedAt frames st = Some (err, st') \<Longrightarrow> listeners st' = listeners st"
  by (auto simp: calibrate_def split: if_splits option.splits)

subsection \<open>Facts about the game\<close>

lemma spawnFood_only_food:
  "spawnFood draws g = Some (rest, g') \<Longrightarrow> \<exists>p. g' = g\<lparr>food := p\<rparr>"
  by (induction draws) (auto split: if_splits)

lemma tick_keeps:
  assumes "gameRunning g" and "snake g \<noteq> []" and "tick draws g = Some (g', calls)"
  shows "heading g' = nextDirection g \<and> nextDirection g' = nextDirection g \<and> snake g' \<noteq> []"
proof -
  from assms(2) obtain head body where body: "snake g = head # body"
    by (cases "snake g") auto
  show ?thesis
    using assms(1,3) body
    by (auto simp: tick_def Let_def stopGame_def split: if_splits option.splits
        dest!: spawnFood_only_food)
qed

lemmas eval_game = startedGame_def movingRight_def startGame_def resetGame_def stopGame_def
  idleGame_def tick_def onSnake_def Let_def setDirection_def opposite_def

subsection \<open>Direction resolution: the decision table\<close>

text \<open>
  C1. The claim as stated fails: the resolver does not return a horizontal
  direction exactly when \<open>|dx| \<ge> 1.12 * |dy|\<close> and \<open>|dx| > 0.95 * threshold\<close>. The
  source compares \<open>|dx|\<close> with the binary64 product \<^verbatim>\<open>absY * 1.12\<close>. At the binary64
  inputs \<open>dx = 28\<close>, \<open>dy = 25\<close>, \<open>threshold = 1\<close> both conditions of the claim hold
  (\<open>1.12 * 25 = 28\<close>), but the product is \<open>28 + 2 ^ -48\<close>, above \<open>28\<close>, and the
  resolver returns no direction. The same happens at \<open>(7/16, 25/64, 1/64)\<close>.
\<close>

theorem resolveDirection_boundary_counterexample:
  "fl 28 = 28 \<and> fl 25 = 25 \<and> fl 1 = 1
   \<and> \<bar>28\<bar> \<ge> 1.12 * \<bar>25 :: real\<bar> \<and> \<bar>28\<bar> > 0.95 * (1 :: real)
   \<and> mul64 \<bar>25\<bar> lit_1_12 = 28 + 1 / 2 ^ 48
   \<and> resolveDirection64 28 25 1 = None
   \<and> fl (7 / 16) = 7 / 16 \<and> fl (25 / 64) = 25 / 64 \<and> fl (1 / 64) = 1 / 64
   \<and> \<bar>7 / 16\<bar> \<ge> 1.12 * \<bar>25 / 64 :: real\<bar> \<and> \<bar>7 / 16\<bar> > 0.95 * (1 / 64 :: real)
   \<and> resolveDirection64 (7 / 16) (25 / 64) (1 / 64) = None"
  by (simp add: representable representable_boundary resolveDirection64_def Let_def
      products_1_12 products_boundary)

text \<open>
  C1, amended. For all binary64 inputs, with every product and quotient rounded to
  binary64 as the source computes it and the constants the binary64 values of the
  literals: the resolver returns a horizontal direction exactly when \<open>|dx|\<close> is at
  least the product of \<open>|dy|\<close> and \<open>1.12\<close> and greater than the product of the
  threshold and \<open>0.95\<close> (\<open>right\<close> if \<open>dx > 0\<close>, else \<open>left\<close>, with the clamped quotient
  of \<open>|dx|\<close> by the product of that threshold and \<open>2.1\<close> as confidence); otherwise, only
  when \<open>|dy|\<close> is at least the product of \<open>|dx|\<close> and \<open>1.12\<close>, it returns \<open>down\<close> if \<open>dy\<close>
  is greater than the product of the threshold and \<open>1.05\<close>, or else \<open>up\<close> if \<open>dy\<close> is
  less than the negated product of the threshold and \<open>1.35\<close>, with the confidences
  formed in the same way; in every other case it returns no direction. The
  statement spells out what the product, the clamped quotient, the five constants
  and the rounding are.
\<close>

theorem resolveDirection64_table:
  "resolveDirection64 dx dy threshold =
    (if \<bar>dx\<bar> \<ge> mul64 \<bar>dy\<bar> lit_1_12 \<and> \<bar>dx\<bar> > mul64 threshold lit_0_95
     then Some (if dx > 0 then Right else Left,
                clamp01_div64 \<bar>dx\<bar> (mul64 (mul64 threshold lit_0_95) lit_2_1))
     else if \<bar>dy\<bar> \<ge> mul64 \<bar>dx\<bar> lit_1_12 \<and> dy > mul64 threshold lit_1_05
     then Some (Down, clamp01_div64 dy (mul64 (mul64 threshold lit_1_05) lit_2_1))
     else if \<bar>dy\<bar> \<ge> mul64 \<bar>dx\<bar> lit_1_12 \<and> dy < - mul64 threshold lit_1_35
     then Some (Up, clamp01_div64 (- dy) (mul64 (mul64 threshold lit_1_35) lit_2_1))
     else None)
   \<and> mul64 a b = fl (a * b)
   \<and> clamp01_div64 n d =
       (if d = 0 then (if 0 < n then 1 else 0)
        else if 2 ^ 1024 \<le> \<bar>d\<bar> then 0
        else max 0 (min 1 (fl (n / d))))
   \<and> lit_0_95 = 4278419646001971 / 2 ^ 52
   \<and> lit_1_05 = 4728779608739021 / 2 ^ 52
   \<and> lit_1_35 = 3039929748475085 / 2 ^ 51
   \<and> lit_1_12 = 1261007895663739 / 2 ^ 50
   \<and> lit_2_1 = 4728779608739021 / 2 ^ 51
   \<and> (- 1022 \<le> e \<and> pow2 e \<le> \<bar>v\<bar> \<and> \<bar>v\<bar> < pow2 (e + 1)
        \<longrightarrow> \<bar>fl v - v\<bar> \<le> pow2 (e - 52) / 2
            \<and> fl v = of_int (round_even (v / pow2 (e - 52))) * pow2 (e - 52))"
proof -
  have table: "resolveDirection64 dx dy threshold =
    (if \<bar>dx\<bar> \<ge> mul64 \<bar>dy\<bar> lit_1_12 \<and> \<bar>dx\<bar> > mul64 threshold lit_0_95
     then Some (if dx > 0 then Right else Left,
                clamp01_div64 \<bar>dx\<bar> (mul64 (mul64 threshold lit_0_95) lit_2_1))
     else if \<bar>dy\<bar> \<ge> mul64 \<bar>dx\<bar> lit_1_12 \<and> dy > mul64 threshold lit_1_05
     then Some (Down, clamp01_div64 dy (mul64 (mul64 threshold lit_1_05) lit_2_1))
     else if \<bar>dy\<bar> \<ge> mul64 \<bar>dx\<bar> lit_1_12 \<and> dy < - mul64 threshold lit_1_35
     then Some (Up, clamp01_div64 (- dy) (mul64 (mul64 threshold lit_1_35) lit_2_1))
     else None)"
    unfolding resolveDirection64_def Let_def
    by (cases "\<bar>dx\<bar> \<ge> mul64 \<bar>dy\<bar> lit_1_12 \<and> \<bar>dx\<bar> > mul64 threshold lit_0_95";
        cases "\<bar>dy\<bar> \<ge> mul64 \<bar>dx\<bar> lit_1_12";
        cases "dy > mul64 threshold lit_1_05"; cases "dy < - mul64 threshold lit_1_35";
        simp only: if_True if_False simp_thms)
  have quot: "clamp01_div64 n d =
       (if d = 0 then (if 0 < n then 1 else 0)
        else if 2 ^ 1024 \<le> \<bar>d\<bar> then 0
        else max 0 (min 1 (fl (n / d))))"
    by (simp only: clamp01_div64_def clamp01_def)
  have round: "\<bar>fl v - v\<bar> \<le> pow2 (e - 52) / 2
            \<and> fl v = of_int (round_even (v / pow2 (e - 52))) * pow2 (e - 52)"
    if "- 1022 \<le> e \<and> pow2 e \<le> \<bar>v\<bar> \<and> \<bar>v\<bar> < pow2 (e + 1)"
  proof -
    have lo: "pow2 (e - 52) * 2 ^ 52 \<le> \<bar>v\<bar>"
      using that pow2_shift [of e 52] by simp
    have hi: "\<bar>v\<bar> < pow2 (e - 52) * 2 ^ 53"
      using that pow2_shift [of e 53] by (simp add: algebra_simps)
    from that fl_error [of e v] fl_at [OF refl _ lo hi] show ?thesis
      by blast
  qed
  have round_imp: "- 1022 \<le> e \<and> pow2 e \<le> \<bar>v\<bar> \<and> \<bar>v\<bar> < pow2 (e + 1)
        \<longrightarrow> \<bar>fl v - v\<bar> \<le> pow2 (e - 52) / 2
            \<and> fl v = of_int (round_even (v / pow2 (e - 52))) * pow2 (e - 52)"
    using round by blast
  have product: "mul64 a b = fl (a * b)"
    by (rule mul64_def)
  have lits: "lit_0_95 = 4278419646001971 / 2 ^ 52" "lit_1_05 = 4728779608739021 / 2 ^ 52"
    "lit_1_35 = 3039929748475085 / 2 ^ 51" "lit_1_12 = 1261007895663739 / 2 ^ 50"
    "lit_2_1 = 4728779608739021 / 2 ^ 51"
    by (simp_all add: lit_values)
  from table product quot lits round_imp show ?thesis
    by (intro conjI) assumption+
qed

theorem resolveDirection64_table_witness:
  "resolveDirection64 1 0 1 = Some (Right, 4514886844481701 / 2 ^ 53)
   \<and> resolveDirection64 (- 1) 0 1 = Some (Left, 4514886844481701 / 2 ^ 53)
   \<and> resolveDirection64 0 2 1 = Some (Down, 8169795242395457 / 2 ^ 53)
   \<and> resolveDirection64 0 (- 2) 1 = Some (Up, 6354285188529799 / 2 ^ 53)
   \<and> resolveDirection64 1 1 1 = None
   \<and> resolveDirection64 28 25 1 = None
   \<and> resolveDirection64 1 0 0 = Some (Right, 1)
   \<and> fl 1.12 = 1261007895663739 / 2 ^ 50
   \<and> fl (25 * (1261007895663739 / 2 ^ 50)) = 28 + 1 / 2 ^ 48
   \<and> - 1022 \<le> (4 :: int) \<and> pow2 4 \<le> \<bar>25 * (1261007895663739 / 2 ^ 50)\<bar>
   \<and> \<bar>25 * (1261007895663739 / 2 ^ 50)\<bar> < pow2 (4 + 1)
   \<and> \<bar>fl (25 * (1261007895663739 / 2 ^ 50)) - 25 * (1261007895663739 / 2 ^ 50)\<bar>
        \<le> pow2 (4 - 52) / 2"
proof -
  note table = resolveDirection64_table [THEN conjunct1]
  note rounding = resolveDirection64_table [where e = 4 and v = "25 * (1261007895663739 / 2 ^ 50)",
      THEN conjunct2, THEN conjunct2, THEN conjunct2, THEN conjunct2, THEN conjunct2,
      THEN conjunct2, THEN conjunct2, THEN conjunct2]
  have binade: "- 1022 \<le> (4 :: int)" "pow2 4 \<le> \<bar>25 * (1261007895663739 / 2 ^ 50)\<bar>"
    "\<bar>25 * (1261007895663739 / 2 ^ 50)\<bar> < pow2 (4 + 1)"
    by (simp_all add: pow2_def)
  with rounding have near:
    "\<bar>fl (25 * (1261007895663739 / 2 ^ 50)) - 25 * (1261007895663739 / 2 ^ 50)\<bar>
      \<le> pow2 (4 - 52) / 2"
    by blast
  have conf: "clamp01_div64 1 (8984681256604139 / 4503599627370496) = 4514886844481701 / 2 ^ 53"
    "clamp01_div64 2 (1241304647293993 / 562949953421312) = 8169795242395457 / 2 ^ 53"
    "clamp01_div64 2 (6383852471797679 / 2251799813685248) = 6354285188529799 / 2 ^ 53"
    "clamp01_div64 1 0 = 1"
    by (simp_all add: clamp01_div64_def clamp01_def quotients_at_1)
  note computed = mul64_zero products_1_12 thresholds_at_1 divisors_at_1 conf
  have right: "resolveDirection64 1 0 1 = Some (Right, 4514886844481701 / 2 ^ 53)"
    by (simp add: table [of 1 0 1] computed)
  have left: "resolveDirection64 (- 1) 0 1 = Some (Left, 4514886844481701 / 2 ^ 53)"
    by (simp add: table [of "- 1" 0 1] computed)
  have down: "resolveDirection64 0 2 1 = Some (Down, 8169795242395457 / 2 ^ 53)"
    by (simp add: table [of 0 2 1] computed)
  have up: "resolveDirection64 0 (- 2) 1 = Some (Up, 6354285188529799 / 2 ^ 53)"
    by (simp add: table [of 0 "- 2" 1] computed)
  have diagonal: "resolveDirection64 1 1 1 = None"
    by (simp add: table [of 1 1 1] computed)
  have boundary: "resolveDirection64 28 25 1 = None"
    by (simp add: table [of 28 25 1] computed)
  have zero: "resolveDirection64 1 0 0 = Some (Right, 1)"
    by (simp add: table [of 1 0 0] computed)
  have literal: "fl 1.12 = 1261007895663739 / 2 ^ 50"
    using lit_values(4) by (simp add: lit_1_12_def)
  have product: "fl (25 * (1261007895663739 / 2 ^ 50)) = 28 + 1 / 2 ^ 48"
    using products_1_12(1) by (simp add: mul64_def lit_values)
  from right left down up diagonal boundary zero literal product binade near show ?thesis
    by (intro conjI) assumption+
qed

subsection \<open>The debounce state machine\<close>

text \<open>
  C2. The claim: a candidate qualifies after one frame when its confidence is at
  least \<open>0.72\<close>, so that the first frame on which a new candidate resolves with
  such a confidence emits an event. The code does not: on a frame whose direction
  is not the candidate of the frame before, it records the candidate with frame
  count \<open>1\<close> and returns (lines 397 to 403) before the test of line 411 is reached,
  whatever the confidence, the gap and the last emitted direction are. The event
  comes with the next frame of the same direction: every event the loop emits is
  for the direction that was the candidate before the frame.
\<close>

theorem new_candidate_emits_nothing:
  "(candidateDirection st \<noteq> Some d
     \<longrightarrow> emitted (debounce t h (Some (d, c)) st) = None
         \<and> notified (debounce t h (Some (d, c)) st) = []
         \<and> candidateDirection (controller (debounce t h (Some (d, c)) st)) = Some d
         \<and> candidateFrameCount (controller (debounce t h (Some (d, c)) st)) = 1
         \<and> candidateConfidence (controller (debounce t h (Some (d, c)) st)) = c
         \<and> lastEmittedDirection (controller (debounce t h (Some (d, c)) st))
             = lastEmittedDirection st
         \<and> lastEmitAt (controller (debounce t h (Some (d, c)) st)) = lastEmitAt st)
   \<and> (emitted (loop f s) = Some e \<longrightarrow> candidateDirection s = Some (direction e))"
  using loop_emitted [of f s e] by (simp add: debounce_def nextFrame_def)

theorem new_candidate_emits_nothing_witness:
  "candidateDirection calibratedController \<noteq> Some Right
   \<and> lastEmittedDirection calibratedController = None
   \<and> 90 \<le> 1000 - lastEmitAt calibratedController
   \<and> requiredFrames 1 = 1
   \<and> emitted (debounce 1000 1 (Some (Right, 1)) calibratedController) = None
   \<and> candidateFrameCount (controller (debounce 1000 1 (Some (Right, 1)) calibratedController)) = 1
   \<and> smoothedDx (controller (loop (noseRight 1000) calibratedController)) = 0.045
   \<and> resolveDirection 0.045 0 0.018 = Some (Right, 1)
   \<and> emitted (loop (noseRight 1000) calibratedController) = None
   \<and> notified (loop (noseRight 1000) calibratedController) = []
   \<and> candidateDirection (controller (loop (noseRight 1000) calibratedController)) = Some Right
   \<and> candidateFrameCount (controller (loop (noseRight 1000) calibratedController)) = 1
   \<and> candidateConfidence (controller (loop (noseRight 1000) calibratedController)) = 1
   \<and> candidateDirection firstRight = Some Right
   \<and> emitted (loop (noseRight 1033) firstRight)
       = Some \<lparr>direction = Right, confidence = 1, timestamp = 1033\<rparr>"
  using new_candidate_emits_nothing [where st = calibratedController and d = Right
      and t = 1000 and h = 1 and c = 1 and s = firstRight and f = "noseRight 1033"
      and e = "\<lparr>direction = Right, confidence = 1, timestamp = 1033\<rparr>"]
  by (simp add: firstRight_eq eval_loop)

text \<open>
  C3. The claim as stated fails: on a frame where the candidate passes the frame
  test and the gap test and its direction is the last emitted one, no event is
  emitted, but the candidate is not cleared. At \<^const>\<open>heldRight\<close>, \<open>267\<close> ms after
  \<open>right\<close> was emitted, a second frame of the candidate \<open>right\<close> leaves the candidate
  in place with frame count \<open>2\<close>.
\<close>

theorem suppressed_repeat_keeps_candidate_counterexample:
  "candidateDirection heldRight = Some Right
   \<and> candidateFrameCount heldRight = 1
   \<and> lastEmittedDirection heldRight = Some Right
   \<and> lastEmitAt heldRight = 1033
   \<and> fst (smoothAndResolve \<lparr>lm_x = 0.6, lm_y = 0.5\<rparr> \<lparr>lm_x = 0.6, lm_y = 0.5\<rparr>
            \<lparr>lm_x = 0.4, lm_y = 0.5\<rparr> 0.2
            \<lparr>noseOffsetX = 0, noseOffsetY = 0, shoulderWidth = 0.2\<rparr> heldRight) = Some (Right, 1)
   \<and> requiredFrames 1 \<le> 2
   \<and> minGapMs Right (Some Right) \<le> 1300 - 1033
   \<and> emitted (loop (noseRight 1300) heldRight) = None
   \<and> candidateDirection (controller (loop (noseRight 1300) heldRight)) \<noteq> None
   \<and> candidateFrameCount (controller (loop (noseRight 1300) heldRight)) = 2
   \<and> candidateConfidence (controller (loop (noseRight 1300) heldRight)) = 1"
  by (simp add: heldRight_eq eval_loop)

text \<open>
  C3, amended. On such a frame no event is emitted and no listener is called; the
  candidate stays, with its frame count incremented and its confidence raised to
  the maximum of the old and the new one, and nothing else but the frame handle
  changes. On every frame, an emitted event has a direction other than the last
  emitted one.
\<close>

theorem suppressed_repeat_keeps_candidate:
  "(candidateDirection st = Some d \<and> lastEmittedDirection st = Some d
      \<and> requiredFrames (max (candidateConfidence st) c) \<le> candidateFrameCount st + 1
      \<and> 220 \<le> t - lastEmitAt st
     \<longrightarrow> emitted (debounce t h (Some (d, c)) st) = None
         \<and> notified (debounce t h (Some (d, c)) st) = []
         \<and> controller (debounce t h (Some (d, c)) st)
             = st\<lparr> candidateFrameCount := candidateFrameCount st + 1,
                    candidateConfidence := max (candidateConfidence st) c,
                    rafId := Some h \<rparr>)
   \<and> (emitted (loop f s) = Some e \<longrightarrow> Some (direction e) \<noteq> lastEmittedDirection s)"
  using loop_emitted [of f s e]
  by (auto simp: debounce_def nextFrame_def Let_def minGapMs_def)

theorem suppressed_repeat_keeps_candidate_witness:
  "candidateDirection heldRight = Some Right \<and> lastEmittedDirection heldRight = Some Right
   \<and> requiredFrames (max (candidateConfidence heldRight) 1) \<le> candidateFrameCount heldRight + 1
   \<and> 220 \<le> 1300 - lastEmitAt heldRight
   \<and> emitted (debounce 1300 1 (Some (Right, 1)) heldRight) = None
   \<and> candidateDirection (controller (debounce 1300 1 (Some (Right, 1)) heldRight)) = Some Right
   \<and> candidateFrameCount (controller (debounce 1300 1 (Some (Right, 1)) heldRight)) = 2
   \<and> emitted (loop (noseRight 1033) (runFrames [noseRight 1000] calibratedController))
        = Some \<lparr>direction = Right, confidence = 1, timestamp = 1033\<rparr>
   \<and> Some Right \<noteq> lastEmittedDirection (runFrames [noseRight 1000] calibratedController)"
  using suppressed_repeat_keeps_candidate [where st = heldRight and d = Right and c = 1
      and t = 1300 and h = 1 and f = "noseRight 1033"
      and s = "runFrames [noseRight 1000] calibratedController"
      and e = "\<lparr>direction = Right, confidence = 1, timestamp = 1033\<rparr>"]
  by (simp add: heldRight_eq eval_loop)

text \<open>
  C4. An event is emitted only for a direction other than the last emitted one and
  only when at least \<open>90\<close> ms have passed since \<open>lastEmitAt\<close>; a candidate of another
  direction that passes the frame test \<open>90\<close> ms or more after \<open>lastEmitAt\<close> is
  emitted, and none is before; a candidate of the last emitted direction has the
  gap \<open>220\<close> ms in the test of line 411 (and is never emitted).
\<close>

theorem emission_gap:
  "(emitted (loop f s) = Some e
     \<longrightarrow> Some (direction e) \<noteq> lastEmittedDirection s \<and> 90 \<le> now f - lastEmitAt s)
   \<and> (candidateDirection st = Some d \<and> Some d \<noteq> lastEmittedDirection st
        \<and> requiredFrames (max (candidateConfidence st) c) \<le> candidateFrameCount st + 1
        \<and> 90 \<le> t - lastEmitAt st
       \<longrightarrow> emitted (debounce t h (Some (d, c)) st)
             = Some \<lparr>direction = d, confidence = max (candidateConfidence st) c, timestamp = t\<rparr>
           \<and> notified (debounce t h (Some (d, c)) st)
             = map (\<lambda>listener. (listener,
                    \<lparr>direction = d, confidence = max (candidateConfidence st) c, timestamp = t\<rparr>))
                 (listeners st)
           \<and> lastEmittedDirection (controller (debounce t h (Some (d, c)) st)) = Some d
           \<and> lastEmitAt (controller (debounce t h (Some (d, c)) st)) = t)
   \<and> (Some d \<noteq> lastEmittedDirection st \<and> t - lastEmitAt st < 90
       \<longrightarrow> emitted (debounce t h (Some (d, c)) st) = None)
   \<and> (lastEmittedDirection st = Some d
       \<longrightarrow> minGapMs d (lastEmittedDirection st) = 220
           \<and> emitted (debounce t h (Some (d, c)) st) = None)"
  using loop_emitted [of f s e]
  by (auto simp: debounce_def nextFrame_def Let_def minGapMs_def)

theorem emission_gap_witness:
  "lastEmittedDirection turningUp = Some Right \<and> lastEmitAt turningUp = 1033
   \<and> candidateDirection turningUp = Some Up
   \<and> requiredFrames (max (candidateConfidence turningUp) 1) \<le> candidateFrameCount turningUp + 1
   \<and> emitted (loop (noseUp 1123) turningUp)
        = Some \<lparr>direction = Up, confidence = 1, timestamp = 1123\<rparr>
   \<and> notified (loop (noseUp 1123) turningUp)
        = [(7, \<lparr>direction = Up, confidence = 1, timestamp = 1123\<rparr>)]
   \<and> emitted (debounce 1123 1 (Some (Up, 1)) turningUp)
        = Some \<lparr>direction = Up, confidence = 1, timestamp = 1123\<rparr>
   \<and> lastEmitAt (controller (debounce 1123 1 (Some (Up, 1)) turningUp)) = 1123
   \<and> emitted (loop (noseUp 1122) turningUp) = None
   \<and> emitted (debounce 1122 1 (Some (Up, 1)) turningUp) = None
   \<and> lastEmittedDirection heldRight = Some Right
   \<and> minGapMs Right (lastEmittedDirection heldRight) = 220
   \<and> emitted (debounce 1300 1 (Some (Right, 1)) heldRight) = None"
  using emission_gap [where s = turningUp and f = "noseUp 1123"
      and e = "\<lparr>direction = Up, confidence = 1, timestamp = 1123\<rparr>"
      and st = turningUp and d = Up and c = 1 and t = 1123 and h = 1]
    emission_gap [where s = turningUp and f = "noseUp 1123"
      and e = "\<lparr>direction = Up, confidence = 1, timestamp = 1123\<rparr>"
      and st = turningUp and d = Up and c = 1 and t = 1122 and h = 1]
    emission_gap [where s = turningUp and f = "noseUp 1123"
      and e = "\<lparr>direction = Up, confidence = 1, timestamp = 1123\<rparr>"
      and st = heldRight and d = Right and c = 1 and t = 1300 and h = 1]
  by (simp add: turningUp_eq heldRight_eq eval_loop)

subsection \<open>Tracking loss\<close>

text \<open>
  C7. On a frame that the loop processes and whose landmarks are absent, or lack
  the nose (index \<open>0\<close>) or a shoulder (indices \<open>11\<close> and \<open>12\<close>), the smoothed signal,
  the candidate and the emission state are cleared, the snapshot reports
  \<open>tracking = false\<close>, the baseline stays, and no event is emitted. The loop has no
  error result: it returns an outcome for every frame. No candidate carries over:
  whatever the next frame \<open>g\<close> is, it emits nothing either.
\<close>

theorem tracking_loss_clears:
  assumes "running st" and "video st \<noteq> None" and "poseLandmarker st \<noteq> None"
    and "landmarks f = None
         \<or> (\<exists>lms. landmarks f = Some lms
               \<and> (itemAt lms 0 = None \<or> itemAt lms 11 = None \<or> itemAt lms 12 = None))"
  shows "smoothedDx (controller (loop f st)) = 0
       \<and> smoothedDy (controller (loop f st)) = 0
       \<and> candidateDirection (controller (loop f st)) = None
       \<and> candidateFrameCount (controller (loop f st)) = 0
       \<and> candidateConfidence (controller (loop f st)) = 0
       \<and> lastEmittedDirection (controller (loop f st)) = None
       \<and> lastEmitAt (controller (loop f st)) = 0
       \<and> tracking (getSnapshot (controller (loop f st))) = False
       \<and> baseline (controller (loop f st)) = baseline st
       \<and> emitted (loop f st) = None
       \<and> notified (loop f st) = []
       \<and> emitted (loop g (controller (loop f st))) = None"
proof -
  have lost: "\<exists>reason. loop f st = trackingLost reason (raf f) (countFrame (now f) st)"
    using assms by (auto simp: loop_def Let_def split: option.splits)
  then obtain reason where eq: "loop f st = trackingLost reason (raf f) (countFrame (now f) st)"
    by blast
  have cleared: "candidateDirection (controller (loop f st)) = None"
    by (simp add: eq trackingLost_def nextFrame_def)
  have silent: "emitted (loop g (controller (loop f st))) = None"
  proof (cases "emitted (loop g (controller (loop f st)))")
    case None
    then show ?thesis .
  next
    case (Some e)
    from loop_emitted [OF Some] cleared show ?thesis by simp
  qed
  show ?thesis
    using silent by (simp add: eq trackingLost_def nextFrame_def getSnapshot_def countFrame_keeps)
qed

theorem tracking_loss_clears_witness:
  "running firstRight \<and> video firstRight \<noteq> None \<and> poseLandmarker firstRight \<noteq> None
   \<and> landmarks (nobody 1033) = None
   \<and> candidateDirection firstRight = Some Right
   \<and> candidateFrameCount firstRight = 1
   \<and> emitted (loop (noseRight 1033) firstRight)
        = Some \<lparr>direction = Right, confidence = 1, timestamp = 1033\<rparr>
   \<and> candidateDirection (controller (loop (nobody 1033) firstRight)) = None
   \<and> candidateFrameCount (controller (loop (nobody 1033) firstRight)) = 0
   \<and> lastEmittedDirection (controller (loop (nobody 1033) firstRight)) = None
   \<and> smoothedDx (controller (loop (nobody 1033) firstRight)) = 0
   \<and> tracking (getSnapshot (controller (loop (nobody 1033) firstRight))) = False
   \<and> baseline (controller (loop (nobody 1033) firstRight)) = baseline firstRight
   \<and> emitted (loop (nobody 1033) firstRight) = None
   \<and> emitted (loop (noseRight 1066) (controller (loop (nobody 1033) firstRight))) = None
   \<and> candidateFrameCount
        (controller (loop (noseRight 1066) (controller (loop (nobody 1033) firstRight)))) = 1
   \<and> landmarks \<lparr>now = 1033, landmarks = Some [\<lparr>lm_x = 0.6, lm_y = 0.5\<rparr>], raf = 1\<rparr>
        = Some [\<lparr>lm_x = 0.6, lm_y = 0.5\<rparr>]
   \<and> itemAt [\<lparr>lm_x = 0.6, lm_y = 0.5\<rparr>] 11 = None
   \<and> candidateDirection (controller (loop
         \<lparr>now = 1033, landmarks = Some [\<lparr>lm_x = 0.6, lm_y = 0.5\<rparr>], raf = 1\<rparr> firstRight)) = None
   \<and> tracking (getSnapshot (controller (loop
         \<lparr>now = 1033, landmarks = Some [\<lparr>lm_x = 0.6, lm_y = 0.5\<rparr>], raf = 1\<rparr> firstRight))) = False"
proof -
  have noseOnly: "itemAt [p] 0 = Some p" "itemAt [p] 11 = None" for p :: Landmark
    by (simp_all add: itemAt_def)
  show ?thesis
    using tracking_loss_clears [of firstRight "nobody 1033" "noseRight 1066"]
      tracking_loss_clears [of firstRight
        "\<lparr>now = 1033, landmarks = Some [\<lparr>lm_x = 0.6, lm_y = 0.5\<rparr>], raf = 1\<rparr>"
        "noseRight 1066"]
    by (simp add: firstRight_eq eval_loop noseOnly)
qed

subsection \<open>Calibration\<close>

text \<open>
  C5. When the sampling loop of \<^verbatim>\<open>calibrate()\<close> ends with at least six samples, the
  call succeeds; each field of the new baseline is the arithmetic mean of that
  field over the collected samples, which are the valid samples of the frames
  polled, and the smoothed signal, the candidate and the emission state are reset.
\<close>

theorem calibrate_baseline_is_mean:
  assumes "running st" and "video st \<noteq> None" and "poseLandmarker st \<noteq> None"
    and "collectSamples st startedAt frames [] = Some samples"
    and "6 \<le> length samples"
  shows "calibrate startedAt frames st =
          Some (None,
            st\<lparr> baseline := Some
                   \<lparr> noseOffsetX = sum_list (map noseOffsetX samples) / real (length samples),
                     noseOffsetY = sum_list (map noseOffsetY samples) / real (length samples),
                     shoulderWidth = sum_list (map shoulderWidth samples) / real (length samples) \<rparr>,
                lastEmittedDirection := None,
                lastEmitAt := 0,
                candidateDirection := None,
                candidateFrameCount := 0,
                candidateConfidence := 0,
                smoothedDx := 0,
                smoothedDy := 0,
                snapshot := (snapshot st)\<lparr>calibrated := True, debug := ''Calibrated''\<rparr> \<rparr>)
       \<and> (\<exists>n<length frames.
             samples = List.map_filter (\<lambda>f. captureBaselineSample st (landmarks f)) (take n frames))"
proof -
  from assms(5) have nonempty: "samples \<noteq> []"
    by auto
  have mean: "average (map field samples) = sum_list (map field samples) / real (length samples)"
    for field :: "FaceBaseline \<Rightarrow> real"
    using average_mean [of "map field samples"] nonempty by simp
  from collectSamples_result [OF assms(4)]
  have "\<exists>n<length frames.
          samples = List.map_filter (\<lambda>f. captureBaselineSample st (landmarks f)) (take n frames)"
    by auto
  then show ?thesis
    using assms by (simp add: calibrate_def mean)
qed

theorem calibrate_baseline_is_mean_witness:
  "running heldRight \<and> video heldRight \<noteq> None \<and> poseLandmarker heldRight \<noteq> None
   \<and> candidateDirection heldRight = Some Right \<and> lastEmittedDirection heldRight = Some Right
   \<and> calibrate 0 sixSamples heldRight =
        Some (None,
          heldRight\<lparr> baseline := Some \<lparr>noseOffsetX = 0.025, noseOffsetY = - 0.2, shoulderWidth = 0.2\<rparr>,
                     lastEmittedDirection := None,
                     lastEmitAt := 0,
                     candidateDirection := None,
                     candidateFrameCount := 0,
                     candidateConfidence := 0,
                     smoothedDx := 0,
                     smoothedDy := 0,
                     snapshot := (snapshot heldRight)\<lparr>calibrated := True, debug := ''Calibrated''\<rparr> \<rparr>)"
  using calibrate_baseline_is_mean [OF _ _ _ sixSamples_collected]
  by (simp add: heldRight_eq calibratedController_def startedController_def newController_def)

text \<open>
  C6. When the sampling loop ends with fewer than six samples, \<^verbatim>\<open>calibrate()\<close> fails
  with the calibration error and leaves the controller as it was, so a baseline
  that existed is untouched and an absent one stays absent. The loop then ended
  because \<open>1800\<close> ms had passed (it would have gone on to twelve samples), and
  every sample it took has nose and both shoulders and a shoulder width of at
  least \<open>0.0001\<close>.
\<close>

theorem calibrate_too_few_samples:
  assumes "running st" and "video st \<noteq> None" and "poseLandmarker st \<noteq> None"
    and "collectSamples st startedAt frames [] = Some samples"
    and "length samples < 6"
  shows "calibrate startedAt frames st = Some (Some CalibrationFailed, st)
       \<and> (\<exists>n<length frames.
             samples = List.map_filter (\<lambda>f. captureBaselineSample st (landmarks f)) (take n frames)
             \<and> 1800 \<le> now (frames ! n) - startedAt
             \<and> (\<forall>k<n. now (frames ! k) - startedAt < 1800))
       \<and> (\<forall>sample \<in> set samples. 0.0001 \<le> shoulderWidth sample)"
proof -
  from collectSamples_result [OF assms(4)] assms(5)
  have "\<exists>n<length frames.
          samples = List.map_filter (\<lambda>f. captureBaselineSample st (landmarks f)) (take n frames)
          \<and> 1800 \<le> now (frames ! n) - startedAt
          \<and> (\<forall>k<n. now (frames ! k) - startedAt < 1800)"
    by fastforce
  moreover have "\<forall>sample \<in> set samples. 0.0001 \<le> shoulderWidth sample"
    using collected_valid [OF assms(4)] by blast
  ultimately show ?thesis
    using assms by (simp add: calibrate_def)
qed

theorem calibrate_too_few_samples_witness:
  "running heldRight \<and> video heldRight \<noteq> None \<and> poseLandmarker heldRight \<noteq> None
   \<and> length [\<lparr>noseOffsetX = 0, noseOffsetY = - 0.2, shoulderWidth = 0.2\<rparr>,
              \<lparr>noseOffsetX = 0.02, noseOffsetY = - 0.2, shoulderWidth = 0.2\<rparr>,
              \<lparr>noseOffsetX = 0.03, noseOffsetY = - 0.2, shoulderWidth = 0.2\<rparr>,
              \<lparr>noseOffsetX = 0.04, noseOffsetY = - 0.2, shoulderWidth = 0.2\<rparr>,
              \<lparr>noseOffsetX = 0.05, noseOffsetY = - (0.2::real), shoulderWidth = 0.2\<rparr>] = 5
   \<and> calibrate 0 fiveSamples heldRight = Some (Some CalibrationFailed, heldRight)
   \<and> baseline heldRight = Some \<lparr>noseOffsetX = 0, noseOffsetY = 0, shoulderWidth = 0.2\<rparr>
   \<and> running startedController \<and> video startedController \<noteq> None
   \<and> poseLandmarker startedController \<noteq> None
   \<and> calibrate 0 fiveSamples startedController = Some (Some CalibrationFailed, startedController)
   \<and> baseline startedController = None"
proof -
  have started: "video startedController \<noteq> None" "poseLandmarker startedController \<noteq> None"
    by (simp_all add: startedController_def newController_def)
  have held: "video heldRight \<noteq> None" "poseLandmarker heldRight \<noteq> None"
    by (simp_all add: heldRight_eq calibratedController_def startedController_def newController_def)
  show ?thesis
    using calibrate_too_few_samples [OF _ _ _ fiveSamples_collected [OF held]]
      calibrate_too_few_samples [OF _ _ _ fiveSamples_collected [OF started]]
    by (simp add: heldRight_eq calibratedController_def startedController_def newController_def)
qed

subsection \<open>stop\<close>

text \<open>
  C8. \<^verbatim>\<open>stop()\<close> is idempotent: from any controller a second call changes nothing,
  so the snapshot after the second call is the one after the first. After a call
  the snapshot reports \<open>tracking = false\<close> and \<open>calibrated = false\<close>, and the
  baseline, the candidate, the emission state and the smoothed signal are cleared.
  \<^verbatim>\<open>stop()\<close> has no path that throws: it is a total function of the controller.
\<close>

theorem stop_idempotent:
  "stop (stop st) = stop st
   \<and> getSnapshot (stop (stop st)) = getSnapshot (stop st)
   \<and> getSnapshot (stop st)
       = \<lparr>tracking = False, calibrated = False, fps = 0, debug = ''Stopped'', lastDirection = None\<rparr>
   \<and> \<not> running (stop st)
   \<and> baseline (stop st) = None
   \<and> candidateDirection (stop st) = None
   \<and> candidateFrameCount (stop st) = 0
   \<and> candidateConfidence (stop st) = 0
   \<and> lastEmittedDirection (stop st) = None
   \<and> lastEmitAt (stop st) = 0
   \<and> smoothedDx (stop st) = 0
   \<and> smoothedDy (stop st) = 0"
  by (cases "video st") (simp_all add: stop_def getSnapshot_def)

theorem stop_idempotent_witness:
  "stop (stop heldRight) = stop heldRight
   \<and> tracking (getSnapshot heldRight) \<and> calibrated (getSnapshot heldRight)
   \<and> \<not> tracking (getSnapshot (stop heldRight)) \<and> \<not> calibrated (getSnapshot (stop heldRight))
   \<and> getSnapshot (stop (stop heldRight)) = getSnapshot (stop heldRight)
   \<and> baseline heldRight \<noteq> None \<and> baseline (stop heldRight) = None
   \<and> candidateDirection heldRight = Some Right \<and> candidateDirection (stop heldRight) = None
   \<and> lastEmittedDirection (stop heldRight) = None
   \<and> stop (stop (newController None None)) = stop (newController None None)"
  using stop_idempotent [of heldRight] stop_idempotent [of "newController None None"]
  by (simp add: heldRight_eq calibratedController_def startedController_def newController_def
      getSnapshot_def)

subsection \<open>Listeners\<close>

text \<open>
  C10. Registering a listener twice adds it once: the set of listeners after the
  second registration is the one after the first. In any later state with that
  set of listeners (the loop, \<^verbatim>\<open>stop\<close> and \<^verbatim>\<open>calibrate\<close> keep it), a frame that
  emits an event calls the listener exactly once, with that event. After either
  of the two handles has been called, in whatever state \<open>u\<close>, the listener is in no
  call of a later frame.
\<close>

theorem listener_registered_once:
  "listeners (snd (onDirection l (snd (onDirection l st)))) = listeners (snd (onDirection l st))
   \<and> (distinct (listeners st)
        \<and> listeners s = listeners (snd (onDirection l (snd (onDirection l st))))
        \<and> emitted (loop f s) = Some e
       \<longrightarrow> filter (\<lambda>call. fst call = l) (notified (loop f s)) = [(l, e)])
   \<and> (listeners s' = listeners (fst (onDirection l st) u)
        \<or> listeners s' = listeners (fst (onDirection l (snd (onDirection l st))) u)
       \<longrightarrow> filter (\<lambda>call. fst call = l) (notified (loop f' s')) = [])"
proof (intro conjI impI)
  show "listeners (snd (onDirection l (snd (onDirection l st)))) = listeners (snd (onDirection l st))"
    by (simp add: onDirection_def set_add_twice)
next
  assume a: "distinct (listeners st)
        \<and> listeners s = listeners (snd (onDirection l (snd (onDirection l st))))
        \<and> emitted (loop f s) = Some e"
  then have ls: "listeners s = set_add l (listeners st)"
    by (simp add: onDirection_def set_add_twice)
  have "filter (\<lambda>listener. listener = l) (listeners s) = [l]"
    unfolding ls using a by (intro filter_eq_distinct set_add_distinct set_add_member) simp
  with a show "filter (\<lambda>call. fst call = l) (notified (loop f s)) = [(l, e)]"
    by (simp add: loop_notified calls_of_listener)
next
  assume "listeners s' = listeners (fst (onDirection l st) u)
        \<or> listeners s' = listeners (fst (onDirection l (snd (onDirection l st))) u)"
  then have "listeners s' = set_delete l (listeners u)"
    by (auto simp: onDirection_def)
  then have "filter (\<lambda>listener. listener = l) (listeners s') = []"
    by (simp add: filter_eq_absent set_delete_gone)
  then show "filter (\<lambda>call. fst call = l) (notified (loop f' s')) = []"
    by (simp add: loop_notified calls_of_listener split: option.splits)
qed

theorem listener_registered_once_witness:
  "distinct (listeners (newController None None))
   \<and> listeners (snd (onDirection 7 (snd (onDirection 7 (newController None None))))) = [7]
   \<and> listeners firstRight = [7]
   \<and> emitted (loop (noseRight 1033) firstRight)
        = Some \<lparr>direction = Right, confidence = 1, timestamp = 1033\<rparr>
   \<and> notified (loop (noseRight 1033) firstRight)
        = [(7, \<lparr>direction = Right, confidence = 1, timestamp = 1033\<rparr>)]
   \<and> filter (\<lambda>call. fst call = 7) (notified (loop (noseRight 1033) firstRight))
        = [(7, \<lparr>direction = Right, confidence = 1, timestamp = 1033\<rparr>)]
   \<and> listeners (fst (onDirection 7 (newController None None)) firstRight) = []
   \<and> listeners (fst (onDirection 7 (snd (onDirection 7 (newController None None)))) firstRight) = []
   \<and> emitted (loop (noseRight 1033) (fst (onDirection 7 (newController None None)) firstRight))
        = Some \<lparr>direction = Right, confidence = 1, timestamp = 1033\<rparr>
   \<and> filter (\<lambda>call. fst call = 7)
        (notified (loop (noseRight 1033) (fst (onDirection 7 (newController None None)) firstRight)))
        = []"
  using listener_registered_once [where l = 7 and st = "newController None None"
      and s = firstRight and f = "noseRight 1033"
      and e = "\<lparr>direction = Right, confidence = 1, timestamp = 1033\<rparr>"
      and s' = "fst (onDirection 7 (newController None None)) firstRight" and u = firstRight
      and f' = "noseRight 1033"]
  by (simp add: firstRight_eq eval_loop onDirection_def set_add_def set_delete_def)

subsection \<open>The turning rule of the game\<close>

text \<open>
  C9. The claim: the direction a tick applies is never the exact opposite of the
  direction the tick before applied. \<^verbatim>\<open>setDirection\<close> tests the pending
  \<^verbatim>\<open>nextDirection\<close>, not the direction of the last move, so two calls between two
  ticks reverse the snake: after a tick to the right, \<open>up\<close> is accepted, and then
  \<open>left\<close> is accepted against the pending \<open>up\<close>. The next tick applies \<open>(-1, 0)\<close>,
  the exact opposite of \<open>(1, 0)\<close>; on the started game the head runs into the neck
  and the game is over.
\<close>

theorem two_turns_reverse:
  assumes "gameRunning g0" and "snake g0 \<noteq> []"
    and "nextDirection g0 = \<lparr>pt_x = 1, pt_y = 0\<rparr>"
    and "tick draws0 g0 = Some (g1, calls1)"
    and "gameRunning g1"
    and "tick draws1 (setDirection Left (setDirection Up g1)) = Some (g2, calls2)"
  shows "heading g1 = \<lparr>pt_x = 1, pt_y = 0\<rparr> \<and> heading g2 = opposite (heading g1)"
proof -
  from tick_keeps [OF assms(1,2,4)] assms(3)
  have first: "heading g1 = \<lparr>pt_x = 1, pt_y = 0\<rparr>" "nextDirection g1 = \<lparr>pt_x = 1, pt_y = 0\<rparr>"
    "snake g1 \<noteq> []"
    by simp_all
  have turned: "nextDirection (setDirection Left (setDirection Up g1)) = \<lparr>pt_x = - 1, pt_y = 0\<rparr>"
    using first(2) by (simp add: setDirection_def Let_def)
  have "gameRunning (setDirection Left (setDirection Up g1))"
    and "snake (setDirection Left (setDirection Up g1)) \<noteq> []"
    using assms(5) first by (simp_all add: setDirection_def Let_def)
  from tick_keeps [OF this assms(6)] turned first(1) show ?thesis
    by (simp add: opposite_def)
qed

theorem two_turns_reverse_witness:
  "startGame [\<lparr>pt_x = 3, pt_y = 3\<rparr>] 1 idleGame = Some (startedGame, [ScoreChange 0])
   \<and> gameRunning startedGame \<and> snake startedGame \<noteq> []
   \<and> nextDirection startedGame = \<lparr>pt_x = 1, pt_y = 0\<rparr>
   \<and> tick [] startedGame = Some (movingRight, [])
   \<and> gameRunning movingRight
   \<and> heading movingRight = \<lparr>pt_x = 1, pt_y = 0\<rparr>
   \<and> nextDirection (setDirection Up movingRight) = \<lparr>pt_x = 0, pt_y = - 1\<rparr>
   \<and> nextDirection (setDirection Left (setDirection Up movingRight)) = \<lparr>pt_x = - 1, pt_y = 0\<rparr>
   \<and> tick [] (setDirection Left (setDirection Up movingRight))
       = Some (movingRight\<lparr> nextDirection := \<lparr>pt_x = - 1, pt_y = 0\<rparr>,
                            heading := \<lparr>pt_x = - 1, pt_y = 0\<rparr>,
                            gameRunning := False, tickId := None \<rparr>,
               [GameOver 0])
   \<and> opposite (heading movingRight) = \<lparr>pt_x = - 1, pt_y = 0\<rparr>"
  using two_turns_reverse [where ?g0.0 = startedGame and ?draws0.0 = "[]" and ?g1.0 = movingRight
      and ?calls1.0 = "[]" and ?draws1.0 = "[]"
      and ?g2.0 = "movingRight\<lparr> nextDirection := \<lparr>pt_x = - 1, pt_y = 0\<rparr>,
                            heading := \<lparr>pt_x = - 1, pt_y = 0\<rparr>,
                            gameRunning := False, tickId := None \<rparr>"
      and ?calls2.0 = "[GameOver 0]"]
  by (simp add: eval_game)

end
